theory Spec2Isabelle
  imports Complex_Main
begin

section \<open>Python values and built-ins used by \<open>train.py\<close>\<close>

text \<open>
  Python integers are unbounded and are modelled as \<open>int\<close>; lists are HOL lists.
  A Python float is modelled by the real number it denotes: comparisons of (finite) floats
  are exact, so \<open><\<close> and \<open>>\<close> on floats are the order of the reals.  Float addition and
  division round, so they are not the operations of the reals; they are taken as the
  operations \<open>float_add\<close> and \<open>float_div\<close> of the environment below and nothing is assumed
  about them.  Exceptions are values of type \<open>error\<close>; a function that can raise returns
  \<open>error + 'a\<close> with the exception on the left.
\<close>

datatype error =
    ValueError
  | ZeroDivisionError
  | UnboundLocalError
  | TypeError
  | FileNotFoundError
  | TensorError

text \<open>\<^verbatim>\<open>xs[i:]\<close>: a negative start counts from the end, and the start is clipped to the list.\<close>

definition slice_from :: "'a list \<Rightarrow> int \<Rightarrow> 'a list" where
  "slice_from xs i =
     (let n = int (length xs);
          s = (if i < 0 then max (n + i) 0 else min i n)
      in drop (nat s) xs)"

text \<open>\<^verbatim>\<open>xs[i:j]\<close>, both bounds clipped the same way.\<close>

definition slice :: "'a list \<Rightarrow> int \<Rightarrow> int \<Rightarrow> 'a list" where
  "slice xs i j =
     (let n = int (length xs);
          s = (if i < 0 then max (n + i) 0 else min i n);
          e = (if j < 0 then max (n + j) 0 else min j n)
      in take (nat (e - s)) (drop (nat s) xs))"

text \<open>\<^verbatim>\<open>range(start, stop, step)\<close> as the list it iterates over; a zero step raises.\<close>

definition range3 :: "int \<Rightarrow> int \<Rightarrow> int \<Rightarrow> error + int list" where
  "range3 start stop step =
     (if step = 0 then Inl ValueError
      else if 0 < step
        then Inr (map (\<lambda>k. start + int k * step) [0 ..< nat ((stop - start + step - 1) div step)])
        else Inr (map (\<lambda>k. start + int k * step) [0 ..< nat ((start - stop - step - 1) div (- step))]))"

text \<open>\<^verbatim>\<open>os.path.join(a, b)\<close> on POSIX paths.\<close>

definition path_join :: "string \<Rightarrow> string \<Rightarrow> string" where
  "path_join a b =
     (if b \<noteq> [] \<and> hd b = CHR ''/'' then b
      else if a = [] \<or> last a = CHR ''/'' then a @ b
      else a @ ''/'' @ b)"

section \<open>Padding\<close>

text \<open>
  \<^verbatim>\<open>
  def pad_sequence(seq, max_len):
      if len(seq) >= max_len:
          return seq[-max_len:]
      return [0] * (max_len - len(seq)) + seq
  \<close>
  \<^verbatim>\<open>[0] * k\<close> is the list of \<open>k\<close> zeros (empty for \<open>k \<le> 0\<close>).
\<close>

definition pad_sequence :: "int list \<Rightarrow> int \<Rightarrow> int list" where
  "pad_sequence seq max_len =
     (if int (length seq) \<ge> max_len then slice_from seq (- max_len)
      else replicate (nat (max_len - int (length seq))) 0 @ seq)"


section \<open>Configuration and collaborators\<close>

text \<open>
  The constants imported from \<open>utils.config\<close> are not part of \<open>train.py\<close>; they are the
  fields of a configuration record that every function below receives.
\<close>

record config =
  MASK_PROB :: real
  EPOCHS :: int
  PATIENCE :: int
  LR :: real
  SEQ_LEN :: int
  PROCESSED_DIR :: string
  BATCH_SIZE :: int

text \<open>
  Everything \<open>train.py\<close> calls but does not define is a field of the environment: the
  process-wide generator of the \<open>random\<close> module, the \<open>torch\<close> objects (model, loss,
  optimizer, scheduler) and \<open>utils.evaluate.evaluate_model\<close>.  Their state is one abstract
  value of type \<open>'w\<close> that every call receives and returns; \<open>'l\<close> is the type of logits and
  \<open>'p\<close> the type of a \<open>state_dict\<close>.

  \<^item> \<open>random_random\<close> is \<^verbatim>\<open>random.random()\<close>, \<open>random_shuffle\<close> is \<^verbatim>\<open>random.shuffle(xs)\<close>
    (the list it leaves behind);
  \<^item> \<open>setup_training\<close> builds optimizer, loss and scheduler and moves the model to the device
    (lines 63 to 66); \<open>BERT4Rec\<close> constructs the model;
  \<^item> \<open>model_forward\<close> is \<^verbatim>\<open>model(masked_inputs, mask)\<close>; \<open>criterion\<close> is the value
    \<^verbatim>\<open>criterion(logits.view(-1, logits.size(-1)), labels.view(-1)).item()\<close>;
  \<^item> \<open>optimizer_step\<close> is \<^verbatim>\<open>optimizer.zero_grad(); loss.backward(); optimizer.step()\<close>;
    \<open>optimizer_lr\<close> reads \<^verbatim>\<open>optimizer.param_groups[0]['lr']\<close>;
  \<^item> \<open>evaluate_model\<close> returns \<^verbatim>\<open>(val_metrics['ndcg'][10], val_metrics['recall'][10])\<close>.

  Moving tensors to the device, \<open>tqdm\<close> and \<open>print\<close> do not change any value below and are
  left out.  A collaborator that raises (a forward pass, a metric, a write to disk) aborts the
  run; the functions of the environment are total, so the properties below are about the
  runs in which the collaborators return.
\<close>

record ('w, 'l, 'p) env =
  random_random :: "'w \<Rightarrow> real \<times> 'w"
  random_shuffle :: "'w \<Rightarrow> int list list \<Rightarrow> int list list \<times> 'w"
  float_add :: "real \<Rightarrow> real \<Rightarrow> real"
  float_div :: "real \<Rightarrow> real \<Rightarrow> real"
  BERT4Rec :: "'w \<Rightarrow> int \<Rightarrow> 'w"
  setup_training :: "'w \<Rightarrow> real \<Rightarrow> 'w"
  model_train :: "'w \<Rightarrow> 'w"
  model_eval :: "'w \<Rightarrow> 'w"
  model_forward :: "'w \<Rightarrow> int list list \<Rightarrow> bool list list \<Rightarrow> 'l \<times> 'w"
  criterion :: "'l \<Rightarrow> int list \<Rightarrow> real"
  optimizer_step :: "'w \<Rightarrow> 'l \<Rightarrow> int list \<Rightarrow> 'w"
  optimizer_lr :: "'w \<Rightarrow> real"
  evaluate_model :: "'w \<Rightarrow> int list list \<Rightarrow> int \<Rightarrow> int list \<Rightarrow> (real \<times> real) \<times> 'w"
  scheduler_step :: "'w \<Rightarrow> real \<Rightarrow> 'w"
  state_dict :: "'w \<Rightarrow> 'p"

text \<open>
  \<^verbatim>\<open>torch.LongTensor(rows)\<close> on a list of lists of integers: the rows must have one length
  and every entry must fit in 64 signed bits, otherwise the constructor raises.  A tensor
  that is built is the nested list itself.
\<close>

definition LongTensor :: "int list list \<Rightarrow> error + int list list" where
  "LongTensor rows =
     (if list_ex (\<lambda>r. length r \<noteq> length (hd rows)) rows then Inl TensorError
      else if list_ex (list_ex (\<lambda>x. x < - (2 ^ 63) \<or> 2 ^ 63 \<le> x)) rows then Inl TensorError
      else Inr rows)"

section \<open>Masking\<close>

text \<open>
  The inner loop of \<open>mask_items\<close> (lines 30 to 36) over the items of one padded sequence.
  The draw is taken only for a non-zero item (\<^verbatim>\<open>and\<close> short-circuits).
\<close>

fun mask_row ::
  "('w, 'l, 'p) env \<Rightarrow> int \<Rightarrow> real \<Rightarrow> int list \<Rightarrow> int list \<times> int list \<Rightarrow> 'w
     \<Rightarrow> (int list \<times> int list) \<times> 'w" where
  "mask_row env MASK_ID mask_prob [] (masked, label) w = ((masked, label), w)"
| "mask_row env MASK_ID mask_prob (item # rest) (masked, label) w =
     (if item \<noteq> 0
      then (let (u, w') = random_random env w
            in if u < mask_prob
               then mask_row env MASK_ID mask_prob rest (masked @ [MASK_ID], label @ [item]) w'
               else mask_row env MASK_ID mask_prob rest (masked @ [item], label @ [0]) w')
      else mask_row env MASK_ID mask_prob rest (masked @ [item], label @ [0]) w)"

text \<open>The outer loop (lines 27 to 38) over the sequences of the batch.\<close>

fun mask_seqs ::
  "('w, 'l, 'p) env \<Rightarrow> int \<Rightarrow> real \<Rightarrow> int \<Rightarrow> int list list
     \<Rightarrow> int list list \<times> int list list \<Rightarrow> 'w \<Rightarrow> (int list list \<times> int list list) \<times> 'w" where
  "mask_seqs env MASK_ID mask_prob seq_len [] (masked_seqs, labels) w = ((masked_seqs, labels), w)"
| "mask_seqs env MASK_ID mask_prob seq_len (seq # rest) (masked_seqs, labels) w =
     (let padded = pad_sequence seq seq_len;
          ((masked, label), w') = mask_row env MASK_ID mask_prob padded ([], []) w
      in mask_seqs env MASK_ID mask_prob seq_len rest (masked_seqs @ [masked], labels @ [label]) w')"

definition mask_items ::
  "('w, 'l, 'p) env \<Rightarrow> int list list \<Rightarrow> int \<Rightarrow> real \<Rightarrow> int \<Rightarrow> 'w
     \<Rightarrow> error + ((int list list \<times> int list list) \<times> 'w)" where
  "mask_items env seqs num_items mask_prob seq_len w =
     (let MASK_ID = num_items + 1;
          ((masked_seqs, labels), w') = mask_seqs env MASK_ID mask_prob seq_len seqs ([], []) w
      in case LongTensor masked_seqs of
           Inl e \<Rightarrow> Inl e
         | Inr masked_inputs \<Rightarrow>
             (case LongTensor labels of
                Inl e \<Rightarrow> Inl e
              | Inr label_tensor \<Rightarrow> Inr ((masked_inputs, label_tensor), w')))"

text \<open>
  The relation between one position of a padded sequence and the two values \<open>mask_items\<close>
  writes for it, and its extension to a whole row.
\<close>

definition position_ok :: "int \<Rightarrow> int \<Rightarrow> int \<Rightarrow> int \<Rightarrow> bool" where
  "position_ok MASK_ID original masked label \<longleftrightarrow>
     (masked = MASK_ID \<and> label = original \<and> original \<noteq> 0) \<or> (masked = original \<and> label = 0)"

definition row_ok :: "int \<Rightarrow> int list \<Rightarrow> int list \<Rightarrow> int list \<Rightarrow> bool" where
  "row_ok MASK_ID padded masked label \<longleftrightarrow>
     length masked = length padded \<and> length label = length padded \<and>
     (\<forall>k<length padded. position_ok MASK_ID (padded ! k) (masked ! k) (label ! k))"

section \<open>Validation loss\<close>

text \<open>
  The body of the loop of \<open>evaluate_val_loss\<close> (lines 48 to 56) for the batch that starts at
  index \<open>i\<close>: the value of \<^verbatim>\<open>loss.item()\<close> and the state after the forward pass.
\<close>

definition val_batch_loss ::
  "('w, 'l, 'p) env \<Rightarrow> int \<Rightarrow> int list list \<Rightarrow> int \<Rightarrow> real \<Rightarrow> int \<Rightarrow> int \<Rightarrow> 'w
     \<Rightarrow> error + (real \<times> 'w)" where
  "val_batch_loss env batch_size val_data num_items mask_prob seq_len i w =
     (let batch = slice val_data i (i + batch_size)
      in case mask_items env batch num_items mask_prob seq_len w of
           Inl e \<Rightarrow> Inl e
         | Inr ((masked_inputs, labels), w1) \<Rightarrow>
             (let mask = map (map (\<lambda>x. x = 0)) masked_inputs;
                  (logits, w2) = model_forward env w1 masked_inputs mask;
                  loss = criterion env logits (concat labels)
              in Inr (loss, w2)))"

fun val_batches ::
  "('w, 'l, 'p) env \<Rightarrow> int \<Rightarrow> int list list \<Rightarrow> int \<Rightarrow> real \<Rightarrow> int \<Rightarrow> int list \<Rightarrow> real \<Rightarrow> 'w
     \<Rightarrow> error + (real \<times> 'w)" where
  "val_batches env batch_size val_data num_items mask_prob seq_len [] total_loss w =
     Inr (total_loss, w)"
| "val_batches env batch_size val_data num_items mask_prob seq_len (i # rest) total_loss w =
     (case val_batch_loss env batch_size val_data num_items mask_prob seq_len i w of
        Inl e \<Rightarrow> Inl e
      | Inr (loss, w') \<Rightarrow>
          val_batches env batch_size val_data num_items mask_prob seq_len rest
            (float_add env total_loss loss) w')"

text \<open>
  \<open>evaluate_val_loss\<close> (lines 42 to 59).  The division by \<^verbatim>\<open>len(val_data)\<close> raises
  \<open>ZeroDivisionError\<close> when the list is empty.
\<close>

definition evaluate_val_loss ::
  "('w, 'l, 'p) env \<Rightarrow> int \<Rightarrow> int list list \<Rightarrow> int \<Rightarrow> real \<Rightarrow> int \<Rightarrow> 'w
     \<Rightarrow> error + (real \<times> 'w)" where
  "evaluate_val_loss env batch_size val_data num_items mask_prob seq_len w =
     (let w0 = model_eval env w
      in case range3 0 (int (length val_data)) batch_size of
           Inl e \<Rightarrow> Inl e
         | Inr loop \<Rightarrow>
             (case val_batches env batch_size val_data num_items mask_prob seq_len loop 0 w0 of
                Inl e \<Rightarrow> Inl e
              | Inr (total_loss, w1) \<Rightarrow>
                  if length val_data = 0 then Inl ZeroDivisionError
                  else Inr (float_div env total_loss (real (length val_data)), w1)))"

text \<open>The per-batch loss values of one pass over the loop indices, in order.\<close>

fun val_losses ::
  "('w, 'l, 'p) env \<Rightarrow> int \<Rightarrow> int list list \<Rightarrow> int \<Rightarrow> real \<Rightarrow> int \<Rightarrow> int list \<Rightarrow> 'w
     \<Rightarrow> error + (real list \<times> 'w)" where
  "val_losses env batch_size val_data num_items mask_prob seq_len [] w = Inr ([], w)"
| "val_losses env batch_size val_data num_items mask_prob seq_len (i # rest) w =
     (case val_batch_loss env batch_size val_data num_items mask_prob seq_len i w of
        Inl e \<Rightarrow> Inl e
      | Inr (loss, w') \<Rightarrow>
          (case val_losses env batch_size val_data num_items mask_prob seq_len rest w' of
             Inl e \<Rightarrow> Inl e
           | Inr (losses, w'') \<Rightarrow> Inr (loss # losses, w'')))"

section \<open>Training\<close>

record log_entry =
  log_epoch :: int
  log_train_loss :: real
  log_val_loss :: real
  log_val_ndcg :: real
  log_val_recall :: real
  log_lr :: real

text \<open>
  What \<open>train_model\<close> does to the file system is a trace of events, oldest first:
  \<^verbatim>\<open>os.makedirs(d, exist_ok=True)\<close>, \<^verbatim>\<open>torch.save(state, path)\<close> and \<^verbatim>\<open>json.dump\<close> of the
  history into the file opened at a path.
\<close>

datatype 'p fs_event =
    MakeDirs string
  | TorchSave string 'p
  | JsonDump string "log_entry list"

text \<open>
  The local variables of \<open>train_model\<close> that live across epochs, the list \<open>train_data\<close>
  (shuffled in place), the state of the collaborators and the trace.  \<open>current_lr\<close> and the
  loop variable \<open>epoch\<close> are unbound until they are first assigned.
\<close>

record ('w, 'p) train_state =
  world :: 'w
  fs :: "'p fs_event list"
  train_data :: "int list list"
  history :: "log_entry list"
  best_ndcg :: real
  patience_counter :: int
  current_lr :: "real option"
  loop_epoch :: "int option"

text \<open>
  The body of the batch loop of \<open>train_model\<close> (lines 91 to 103) for the batch at index
  \<open>i\<close>: the value of \<^verbatim>\<open>loss.item()\<close>, the learning rate read after the optimizer step and
  the state after it.
\<close>

definition train_batch ::
  "('w, 'l, 'p) env \<Rightarrow> int \<Rightarrow> int list list \<Rightarrow> int \<Rightarrow> real \<Rightarrow> int \<Rightarrow> int \<Rightarrow> 'w
     \<Rightarrow> error + ((real \<times> real) \<times> 'w)" where
  "train_batch env batch_size data num_items mask_prob seq_len i w =
     (let batch = slice data i (i + batch_size)
      in case mask_items env batch num_items mask_prob seq_len w of
           Inl e \<Rightarrow> Inl e
         | Inr ((masked_inputs, labels), w1) \<Rightarrow>
             (let mask = map (map (\<lambda>x. x = 0)) masked_inputs;
                  (logits, w2) = model_forward env w1 masked_inputs mask;
                  loss = criterion env logits (concat labels);
                  w3 = optimizer_step env w2 logits (concat labels)
              in Inr ((loss, optimizer_lr env w3), w3)))"

fun train_batches ::
  "('w, 'l, 'p) env \<Rightarrow> int \<Rightarrow> int list list \<Rightarrow> int \<Rightarrow> real \<Rightarrow> int \<Rightarrow> int list
     \<Rightarrow> real \<times> real option \<Rightarrow> 'w \<Rightarrow> error + ((real \<times> real option) \<times> 'w)" where
  "train_batches env batch_size data num_items mask_prob seq_len [] (train_loss, cur_lr) w =
     Inr ((train_loss, cur_lr), w)"
| "train_batches env batch_size data num_items mask_prob seq_len (i # rest) (train_loss, cur_lr) w =
     (case train_batch env batch_size data num_items mask_prob seq_len i w of
        Inl e \<Rightarrow> Inl e
      | Inr ((loss, new_lr), w') \<Rightarrow>
          train_batches env batch_size data num_items mask_prob seq_len rest
            (float_add env train_loss loss, Some new_lr) w')"

text \<open>The per-batch training loss values of one epoch, in order.\<close>

fun train_losses ::
  "('w, 'l, 'p) env \<Rightarrow> int \<Rightarrow> int list list \<Rightarrow> int \<Rightarrow> real \<Rightarrow> int \<Rightarrow> int list \<Rightarrow> 'w
     \<Rightarrow> error + (real list \<times> 'w)" where
  "train_losses env batch_size data num_items mask_prob seq_len [] w = Inr ([], w)"
| "train_losses env batch_size data num_items mask_prob seq_len (i # rest) w =
     (case train_batch env batch_size data num_items mask_prob seq_len i w of
        Inl e \<Rightarrow> Inl e
      | Inr ((loss, new_lr), w') \<Rightarrow>
          (case train_losses env batch_size data num_items mask_prob seq_len rest w' of
             Inl e \<Rightarrow> Inl e
           | Inr (losses, w'') \<Rightarrow> Inr (loss # losses, w'')))"

text \<open>
  The literal \<^verbatim>\<open>1e-4\<close> is the double nearest to one ten-thousandth, which is
  \<open>7378697629483821 / 2 ^ 66\<close>.
\<close>

definition tolerance :: real where
  "tolerance = 7378697629483821 / 2 ^ 66"

text \<open>
  Lines 126 to 136: the decision at the end of an epoch.  The flag returned says whether the
  loop is left by \<^verbatim>\<open>break\<close>.  \<^verbatim>\<open>if model_name:\<close> is false for \<open>None\<close> and for the empty
  string.
\<close>

definition checkpoint_or_stall ::
  "('w, 'l, 'p) env \<Rightarrow> config \<Rightarrow> string option \<Rightarrow> real \<Rightarrow> ('w, 'p) train_state
     \<Rightarrow> ('w, 'p) train_state \<times> bool" where
  "checkpoint_or_stall env cfg model_name val_ndcg st =
     (if val_ndcg > float_add env (best_ndcg st) tolerance
      then (st\<lparr>best_ndcg := val_ndcg, patience_counter := 0,
                fs := fs st @
                  (case model_name of
                     None \<Rightarrow> []
                   | Some name \<Rightarrow>
                       if name = [] then []
                       else [MakeDirs ''models'',
                             TorchSave (path_join ''models'' name) (state_dict env (world st))])\<rparr>,
            False)
      else (let st' = st\<lparr>patience_counter := patience_counter st + 1\<rparr>
            in (st', patience_counter st' \<ge> PATIENCE cfg)))"

text \<open>
  One iteration of the epoch loop (lines 85 to 136).  The log entry is built field by field:
  the division by \<^verbatim>\<open>len(train_data)\<close> comes before the read of \<open>current_lr\<close>.
\<close>

definition run_epoch ::
  "('w, 'l, 'p) env \<Rightarrow> config \<Rightarrow> int list list \<Rightarrow> int \<Rightarrow> real \<Rightarrow> string option \<Rightarrow> int \<Rightarrow> int
     \<Rightarrow> ('w, 'p) train_state \<Rightarrow> error + (('w, 'p) train_state \<times> bool)" where
  "run_epoch env cfg val_data num_items mask_prob model_name seq_len epoch st =
     (let w1 = model_train env (world st);
          (data, w2) = random_shuffle env w1 (train_data st)
      in case range3 0 (int (length data)) (BATCH_SIZE cfg) of
           Inl e \<Rightarrow> Inl e
         | Inr loop \<Rightarrow>
         (case train_batches env (BATCH_SIZE cfg) data num_items mask_prob seq_len loop
                 (0, current_lr st) w2 of
            Inl e \<Rightarrow> Inl e
          | Inr ((train_loss, cur_lr), w3) \<Rightarrow>
          (case evaluate_val_loss env (BATCH_SIZE cfg) val_data num_items mask_prob seq_len w3 of
             Inl e \<Rightarrow> Inl e
           | Inr (val_loss, w4) \<Rightarrow>
             (let ((val_ndcg, val_recall), w5) = evaluate_model env w4 val_data num_items [10];
                  w6 = scheduler_step env w5 val_ndcg
              in if length data = 0 then Inl ZeroDivisionError
                 else (case cur_lr of
                         None \<Rightarrow> Inl UnboundLocalError
                       | Some lr \<Rightarrow>
                           (let entry = \<lparr>log_epoch = epoch,
                                          log_train_loss = float_div env train_loss (real (length data)),
                                          log_val_loss = val_loss,
                                          log_val_ndcg = val_ndcg,
                                          log_val_recall = val_recall,
                                          log_lr = lr\<rparr>;
                                st1 = st\<lparr>world := w6, train_data := data,
                                         history := history st @ [entry],
                                         current_lr := cur_lr, loop_epoch := Some epoch\<rparr>
                            in Inr (checkpoint_or_stall env cfg model_name val_ndcg st1)))))))"

text \<open>The loop over the epochs still to run; \<^verbatim>\<open>break\<close> leaves it.\<close>

fun epoch_loop ::
  "('w, 'l, 'p) env \<Rightarrow> config \<Rightarrow> int list list \<Rightarrow> int \<Rightarrow> real \<Rightarrow> string option \<Rightarrow> int \<Rightarrow> int list
     \<Rightarrow> ('w, 'p) train_state \<Rightarrow> error + ('w, 'p) train_state" where
  "epoch_loop env cfg val_data num_items mask_prob model_name seq_len [] st = Inr st"
| "epoch_loop env cfg val_data num_items mask_prob model_name seq_len (epoch # rest) st =
     (case run_epoch env cfg val_data num_items mask_prob model_name seq_len epoch st of
        Inl e \<Rightarrow> Inl e
      | Inr (st', stop) \<Rightarrow>
          if stop then Inr st'
          else epoch_loop env cfg val_data num_items mask_prob model_name seq_len rest st')"

text \<open>
  \<open>train_model\<close> (lines 61 to 142); \<^verbatim>\<open>range(1, epochs + 1)\<close> is \<open>[1..epochs]\<close>.  The
  default arguments are passed by the caller.  \<^verbatim>\<open>os.path.join("results", None)\<close> raises
  \<open>TypeError\<close>.  The result is the history together with the final state.
\<close>

definition train_model ::
  "('w, 'l, 'p) env \<Rightarrow> config \<Rightarrow> 'w \<Rightarrow> int list list \<Rightarrow> int list list \<Rightarrow> int \<Rightarrow> real
     \<Rightarrow> string option \<Rightarrow> string option \<Rightarrow> int \<Rightarrow> int
     \<Rightarrow> error + (log_entry list \<times> ('w, 'p) train_state)" where
  "train_model env cfg w data val_data num_items mask_prob model_name result_name epochs seq_len =
     (let st0 = \<lparr>world = setup_training env w (LR cfg), fs = [], train_data = data,
                 history = [], best_ndcg = 0, patience_counter = 0,
                 current_lr = None, loop_epoch = None\<rparr>
      in case epoch_loop env cfg val_data num_items mask_prob model_name seq_len [1..epochs] st0 of
           Inl e \<Rightarrow> Inl e
         | Inr st \<Rightarrow>
             (case result_name of
                None \<Rightarrow> Inl TypeError
              | Some name \<Rightarrow>
                  Inr (history st,
                       st\<lparr>fs := fs st @ [MakeDirs ''results'',
                                          JsonDump (path_join ''results'' name) (history st)]\<rparr>)))"

section \<open>Loading the data\<close>

text \<open>
  \<open>load_processed_data\<close> (lines 144 to 155).  The directory is a map from paths to the
  unpickled content of the file there, a list of sequences; opening a path that is not in the
  map raises \<open>FileNotFoundError\<close>, and \<^verbatim>\<open>max\<close> of an empty set raises \<open>ValueError\<close>.
\<close>

definition load_processed_data ::
  "(string \<Rightarrow> int list list option) \<Rightarrow> string
     \<Rightarrow> error + (int list list \<times> int list list \<times> int list list \<times> int)" where
  "load_processed_data disk processed_dir =
     (case disk (path_join processed_dir ''train_seqs.pkl'') of
        None \<Rightarrow> Inl FileNotFoundError
      | Some train_seqs \<Rightarrow>
     (case disk (path_join processed_dir ''val_seqs.pkl'') of
        None \<Rightarrow> Inl FileNotFoundError
      | Some val_seqs \<Rightarrow>
     (case disk (path_join processed_dir ''test_seqs.pkl'') of
        None \<Rightarrow> Inl FileNotFoundError
      | Some test_seqs \<Rightarrow>
          (let all_items = set (filter (\<lambda>item. item \<noteq> 0) (concat (train_seqs @ val_seqs @ test_seqs)))
           in if all_items = {} then Inl ValueError
              else Inr (train_seqs, val_seqs, test_seqs, Max all_items)))))"

text \<open>The script body (lines 157 to 164).\<close>

definition main ::
  "('w, 'l, 'p) env \<Rightarrow> config \<Rightarrow> (string \<Rightarrow> int list list option) \<Rightarrow> 'w
     \<Rightarrow> error + (log_entry list \<times> ('w, 'p) train_state)" where
  "main env cfg disk w =
     (case load_processed_data disk (PROCESSED_DIR cfg) of
        Inl e \<Rightarrow> Inl e
      | Inr (train_seqs, val_seqs, test_seqs, num_items) \<Rightarrow>
          train_model env cfg (BERT4Rec env w num_items) train_seqs val_seqs num_items
            (MASK_PROB cfg) None (Some ''config_1.json'') (EPOCHS cfg) 50)"

section \<open>A concrete environment\<close>

text \<open>
  An environment and a configuration on which the functions above can be evaluated: the
  state is a counter of the calls that change it, every draw is one half, shuffling
  reverses the list, every batch loss is \<open>1\<close>, float arithmetic is exact and the validation
  metrics are constant, so that the first epoch improves on the initial best value and
  every later epoch stalls.
\<close>

definition stub_env :: "(nat, unit, nat) env" where
  "stub_env =
     \<lparr>random_random = (\<lambda>w. (1 / 2, Suc w)),
      random_shuffle = (\<lambda>w xs. (rev xs, Suc w)),
      float_add = (\<lambda>a b. a + b),
      float_div = (\<lambda>a b. a / b),
      BERT4Rec = (\<lambda>w n. w),
      setup_training = (\<lambda>w r. w),
      model_train = (\<lambda>w. w),
      model_eval = (\<lambda>w. w),
      model_forward = (\<lambda>w inputs mask. ((), w)),
      criterion = (\<lambda>logits labels. 1),
      optimizer_step = (\<lambda>w logits labels. Suc w),
      optimizer_lr = (\<lambda>w. 1 / 1000),
      evaluate_model = (\<lambda>w data n ks. ((1 / 2, 1 / 4), w)),
      scheduler_step = (\<lambda>w v. w),
      state_dict = (\<lambda>w. w)\<rparr>"

definition stub_config :: config where
  "stub_config =
     \<lparr>MASK_PROB = 3 / 20, EPOCHS = 3, PATIENCE = 1, LR = 1 / 1000, SEQ_LEN = 3,
      PROCESSED_DIR = ''data'', BATCH_SIZE = 2\<rparr>"

definition stub_disk :: "string \<Rightarrow> int list list option" where
  "stub_disk =
     [''data/train_seqs.pkl'' \<mapsto> [[1, 2], [3], [1, 2, 3, 4]],
      ''data/val_seqs.pkl'' \<mapsto> [[2, 1]],
      ''data/test_seqs.pkl'' \<mapsto> [[4, 1]]]"

text \<open>
  The state in which \<open>train_model\<close> enters its loop on three training sequences, the log
  entry every epoch of the environment above produces, and the states after the first and
  the second epoch when no model name is given.
\<close>

definition stub_state0 :: "(nat, nat) train_state" where
  "stub_state0 =
     \<lparr>world = 0, fs = [], train_data = [[1, 2], [3], [1, 2, 3, 4]], history = [],
      best_ndcg = 0, patience_counter = 0, current_lr = None, loop_epoch = None\<rparr>"

definition stub_entry :: "int \<Rightarrow> log_entry" where
  "stub_entry e =
     \<lparr>log_epoch = e, log_train_loss = 2 / 3, log_val_loss = 1, log_val_ndcg = 1 / 2,
      log_val_recall = 1 / 4, log_lr = 1 / 1000\<rparr>"

definition stub_state1 :: "(nat, nat) train_state" where
  "stub_state1 =
     \<lparr>world = 11, fs = [], train_data = [[1, 2, 3, 4], [3], [1, 2]], history = [stub_entry 1],
      best_ndcg = 1 / 2, patience_counter = 0, current_lr = Some (1 / 1000),
      loop_epoch = Some 1\<rparr>"

definition stub_state2 :: "(nat, nat) train_state" where
  "stub_state2 =
     \<lparr>world = 22, fs = [], train_data = [[1, 2], [3], [1, 2, 3, 4]],
      history = [stub_entry 1, stub_entry 2],
      best_ndcg = 1 / 2, patience_counter = 1, current_lr = Some (1 / 1000),
      loop_epoch = Some 2\<rparr>"

text \<open>
  The state after a third epoch that stalls again, reached when the patience is \<open>2\<close>.
\<close>

definition stub_state3 :: "(nat, nat) train_state" where
  "stub_state3 =
     \<lparr>world = 33, fs = [], train_data = [[1, 2, 3, 4], [3], [1, 2]],
      history = [stub_entry 1, stub_entry 2, stub_entry 3],
      best_ndcg = 1 / 2, patience_counter = 2, current_lr = Some (1 / 1000),
      loop_epoch = Some 3\<rparr>"

section \<open>Properties\<close>

subsection \<open>Padding\<close>

text \<open>
  Claim C2.  For a positive \<open>max_len\<close>: a sequence no longer than \<open>max_len\<close> is padded to
  length exactly \<open>max_len\<close> and the result is the sequence behind \<open>max_len - len(s)\<close> zeros;
  a longer sequence is cut down to its last \<open>max_len\<close> elements.
\<close>

theorem pad_sequence_spec:
  assumes "0 < max_len"
  shows "(int (length s) \<le> max_len \<longrightarrow>
            length (pad_sequence s max_len) = nat max_len \<and>
            pad_sequence s max_len = replicate (nat max_len - length s) 0 @ s) \<and>
         (int (length s) > max_len \<longrightarrow>
            pad_sequence s max_len = drop (length s - nat max_len) s \<and>
            length (pad_sequence s max_len) = nat max_len)"
proof (intro conjI impI)
  assume le: "int (length s) \<le> max_len"
  show eq: "pad_sequence s max_len = replicate (nat max_len - length s) 0 @ s"
  proof (cases "int (length s) = max_len")
    case True
    with assms have "slice_from s (- max_len) = s"
      by (simp add: slice_from_def)
    with True show ?thesis
      by (simp add: pad_sequence_def)
  next
    case False
    with le have "int (length s) < max_len" by simp
    moreover have "nat (max_len - int (length s)) = nat max_len - length s"
      by (simp add: nat_diff_distrib')
    ultimately show ?thesis
      by (simp add: pad_sequence_def)
  qed
  from le show "length (pad_sequence s max_len) = nat max_len"
    unfolding eq by simp
next
  assume gt: "int (length s) > max_len"
  have "nat (int (length s) - max_len) = length s - nat max_len"
    using assms by (simp add: nat_diff_distrib')
  with gt assms show "pad_sequence s max_len = drop (length s - nat max_len) s"
    by (simp add: pad_sequence_def slice_from_def)
  with gt assms show "length (pad_sequence s max_len) = nat max_len"
    by simp
qed

theorem pad_sequence_spec_witness:
  "(0::int) < 5 \<and> pad_sequence [1, 2, 3] 5 = [0, 0, 1, 2, 3] \<and> length (pad_sequence [1, 2, 3] 5) = 5"
  using pad_sequence_spec [of 5 "[1, 2, 3]"] by (simp add: numeral_eq_Suc)

subsection \<open>Masking\<close>

lemma LongTensor_Inr: "LongTensor rows = Inr t \<Longrightarrow> t = rows"
  by (auto simp: LongTensor_def split: if_splits)

lemma mask_row_acc:
  "mask_row env M p xs (m, l) w = ((m', l'), w') \<Longrightarrow>
     \<exists>ms ls. m' = m @ ms \<and> l' = l @ ls \<and> length ms = length xs \<and> length ls = length xs \<and>
       list_all2 (\<lambda>x (a, b). position_ok M x a b) xs (zip ms ls)"
proof (induction xs arbitrary: m l w)
  case Nil
  then show ?case by simp
next
  case (Cons x xs)
  have "\<exists>a b w1. mask_row env M p (x # xs) (m, l) w = mask_row env M p xs (m @ [a], l @ [b]) w1
           \<and> position_ok M x a b"
  proof (cases "x \<noteq> 0 \<and> fst (random_random env w) < p")
    case True
    then have "mask_row env M p (x # xs) (m, l) w =
        mask_row env M p xs (m @ [M], l @ [x]) (snd (random_random env w)) \<and> position_ok M x M x"
      by (simp add: case_prod_beta position_ok_def)
    then show ?thesis by blast
  next
    case False
    then have "mask_row env M p (x # xs) (m, l) w =
        mask_row env M p xs (m @ [x], l @ [0]) (if x \<noteq> 0 then snd (random_random env w) else w)
        \<and> position_ok M x x 0"
      by (auto simp: case_prod_beta position_ok_def)
    then show ?thesis by blast
  qed
  then obtain a b w1 where step: "mask_row env M p (x # xs) (m, l) w = mask_row env M p xs (m @ [a], l @ [b]) w1"
    and ok: "position_ok M x a b"
    by blast
  with Cons.prems have "mask_row env M p xs (m @ [a], l @ [b]) w1 = ((m', l'), w')" by simp
  from Cons.IH [OF this] obtain ms ls where
    "m' = (m @ [a]) @ ms" "l' = (l @ [b]) @ ls" "length ms = length xs" "length ls = length xs"
    "list_all2 (\<lambda>x (a, b). position_ok M x a b) xs (zip ms ls)" by blast
  with ok have "m' = m @ (a # ms) \<and> l' = l @ (b # ls) \<and> length (a # ms) = length (x # xs)
      \<and> length (b # ls) = length (x # xs)
      \<and> list_all2 (\<lambda>x (a, b). position_ok M x a b) (x # xs) (zip (a # ms) (b # ls))"
    by simp
  then show ?case by blast
qed

lemma mask_row_ok:
  assumes "mask_row env M p xs ([], []) w = ((a, b), w')"
  shows "row_ok M xs a b"
proof -
  from mask_row_acc [OF assms] have len: "length a = length xs" "length b = length xs"
    and all: "list_all2 (\<lambda>x (a, b). position_ok M x a b) xs (zip a b)"
    by auto
  have "position_ok M (xs ! k) (a ! k) (b ! k)" if "k < length xs" for k
  proof -
    from list_all2_nthD [OF all that]
    have "(\<lambda>(a, b). position_ok M (xs ! k) a b) (zip a b ! k)" .
    moreover from that len have "zip a b ! k = (a ! k, b ! k)" by simp
    ultimately show ?thesis by simp
  qed
  with len show ?thesis by (simp add: row_ok_def)
qed

lemma mask_seqs_acc:
  "mask_seqs env M p n seqs (ms, ls) w = ((ms', ls'), w') \<Longrightarrow>
     \<exists>mr lr. ms' = ms @ mr \<and> ls' = ls @ lr \<and> length mr = length seqs \<and> length lr = length seqs \<and>
       list_all2 (\<lambda>s (a, b). row_ok M (pad_sequence s n) a b) seqs (zip mr lr)"
proof (induction seqs arbitrary: ms ls w)
  case Nil
  then show ?case by simp
next
  case (Cons s seqs)
  obtain a b w1 where row: "mask_row env M p (pad_sequence s n) ([], []) w = ((a, b), w1)"
    by (metis surj_pair)
  from row have ok: "row_ok M (pad_sequence s n) a b"
    by (rule mask_row_ok)
  from row Cons.prems have "mask_seqs env M p n seqs (ms @ [a], ls @ [b]) w1 = ((ms', ls'), w')"
    by simp
  from Cons.IH [OF this] obtain mr lr where
    "ms' = (ms @ [a]) @ mr" "ls' = (ls @ [b]) @ lr" "length mr = length seqs" "length lr = length seqs"
    "list_all2 (\<lambda>s (a, b). row_ok M (pad_sequence s n) a b) seqs (zip mr lr)" by blast
  with ok have "ms' = ms @ (a # mr) \<and> ls' = ls @ (b # lr) \<and> length (a # mr) = length (s # seqs)
      \<and> length (b # lr) = length (s # seqs)
      \<and> list_all2 (\<lambda>s (a, b). row_ok M (pad_sequence s n) a b) (s # seqs) (zip (a # mr) (b # lr))"
    by simp
  then show ?case by blast
qed

lemma mask_seqs_ok:
  assumes "mask_seqs env M p n seqs ([], []) w = ((ms, ls), w')"
  shows "length ms = length seqs \<and> length ls = length seqs \<and>
         (\<forall>i<length seqs. row_ok M (pad_sequence (seqs ! i) n) (ms ! i) (ls ! i))"
proof -
  from mask_seqs_acc [OF assms] have len: "length ms = length seqs" "length ls = length seqs"
    and all: "list_all2 (\<lambda>s (a, b). row_ok M (pad_sequence s n) a b) seqs (zip ms ls)"
    by auto
  have "row_ok M (pad_sequence (seqs ! i) n) (ms ! i) (ls ! i)" if "i < length seqs" for i
  proof -
    from list_all2_nthD [OF all that]
    have "(\<lambda>(a, b). row_ok M (pad_sequence (seqs ! i) n) a b) (zip ms ls ! i)" .
    moreover from that len have "zip ms ls ! i = (ms ! i, ls ! i)" by simp
    ultimately show ?thesis by simp
  qed
  with len show ?thesis by simp
qed

lemma mask_items_rows:
  assumes "mask_items env seqs num_items mask_prob seq_len w = Inr ((masked_inputs, labels), w')"
  shows "length masked_inputs = length seqs \<and> length labels = length seqs \<and>
         (\<forall>i<length seqs. row_ok (num_items + 1) (pad_sequence (seqs ! i) seq_len)
                             (masked_inputs ! i) (labels ! i))"
proof -
  obtain ms ls w1 where loop:
    "mask_seqs env (num_items + 1) mask_prob seq_len seqs ([], []) w = ((ms, ls), w1)"
    by (metis surj_pair)
  with assms have "LongTensor ms = Inr masked_inputs" "LongTensor ls = Inr labels"
    by (auto simp: mask_items_def split: sum.splits)
  then have eq: "masked_inputs = ms" "labels = ls"
    by (auto dest: LongTensor_Inr)
  from mask_seqs_ok [OF loop] eq show ?thesis by simp
qed

lemma length_pad_sequence: "0 < n \<Longrightarrow> length (pad_sequence s n) = nat n"
  by (auto simp: pad_sequence_def slice_from_def)

text \<open>
  Claim C1.  For a positive \<open>seq_len\<close>, whatever the vocabulary size, the masking
  probability and the draws: when \<open>mask_items\<close> returns \<open>(masked_inputs, labels)\<close>, both have
  one row of length \<open>seq_len\<close> per sequence, and at every position either the input is
  \<open>MASK_ID = num_items + 1\<close> and the label is the padded item, which is not zero, or the input
  is the padded value and the label is zero; a position whose padded value is zero has input
  zero and label zero.
\<close>

theorem mask_items_invariant:
  assumes "0 < seq_len"
      and "mask_items env seqs num_items mask_prob seq_len w = Inr ((masked_inputs, labels), w')"
      and "i < length seqs" and "pos < nat seq_len"
  shows "length masked_inputs = length seqs \<and> length labels = length seqs \<and>
         length (masked_inputs ! i) = nat seq_len \<and> length (labels ! i) = nat seq_len \<and>
         (let original = pad_sequence (seqs ! i) seq_len ! pos
          in ((masked_inputs ! i ! pos = num_items + 1 \<and> labels ! i ! pos = original \<and> original \<noteq> 0) \<or>
              (masked_inputs ! i ! pos = original \<and> labels ! i ! pos = 0)) \<and>
             (original = 0 \<longrightarrow> masked_inputs ! i ! pos = 0 \<and> labels ! i ! pos = 0))"
proof -
  let ?padded = "pad_sequence (seqs ! i) seq_len"
  from mask_items_rows [OF assms(2)] assms(3)
  have len: "length masked_inputs = length seqs" "length labels = length seqs"
    and row: "row_ok (num_items + 1) ?padded (masked_inputs ! i) (labels ! i)"
    by auto
  have plen: "length ?padded = nat seq_len"
    using assms(1) by (rule length_pad_sequence)
  from row plen have rlen: "length (masked_inputs ! i) = nat seq_len" "length (labels ! i) = nat seq_len"
    by (auto simp: row_ok_def)
  from row plen assms(4)
  have "position_ok (num_items + 1) (?padded ! pos) (masked_inputs ! i ! pos) (labels ! i ! pos)"
    by (simp add: row_ok_def)
  with len rlen show ?thesis
    by (auto simp: position_ok_def Let_def)
qed


lemma set_pad_sequence: "set (pad_sequence s n) \<subseteq> insert 0 (set s)"
  by (auto simp: pad_sequence_def slice_from_def Let_def dest: in_set_dropD)

lemma LongTensor_ok:
  assumes "\<forall>r\<in>set rows. length r = n"
      and "\<forall>r\<in>set rows. \<forall>x\<in>set r. - (2 ^ 63) \<le> x \<and> x < 2 ^ 63"
  shows "LongTensor rows = Inr rows"
proof -
  from assms(1) have "\<not> list_ex (\<lambda>r. length r \<noteq> length (hd rows)) rows"
    by (cases rows) (auto simp: list_ex_iff)
  moreover from assms(2) have "\<not> list_ex (list_ex (\<lambda>x. x < - (2 ^ 63) \<or> 2 ^ 63 \<le> x)) rows"
    by (fastforce simp: list_ex_iff)
  ultimately show ?thesis
    by (simp add: LongTensor_def)
qed

lemma row_ok_bounds:
  assumes "row_ok M padded a b" and "\<forall>x\<in>set padded. P x" and "P M" and "P 0"
  shows "(\<forall>x\<in>set a. P x) \<and> (\<forall>x\<in>set b. P x)"
proof -
  from assms(1) have len: "length a = length padded" "length b = length padded"
    and pt: "\<forall>k<length padded. position_ok M (padded ! k) (a ! k) (b ! k)"
    by (simp_all add: row_ok_def)
  have "P (a ! k) \<and> P (b ! k)" if "k < length padded" for k
  proof -
    from that assms(2) have "P (padded ! k)" by simp
    with pt that assms(3,4) show ?thesis
      by (auto simp: position_ok_def)
  qed
  with len show ?thesis
    by (auto simp: in_set_conv_nth)
qed

lemma mask_items_returns:
  assumes "0 < seq_len"
      and "\<forall>s\<in>set seqs. \<forall>x\<in>set s. - (2 ^ 63) \<le> x \<and> x < 2 ^ 63"
      and "- (2 ^ 63) \<le> num_items + 1" and "num_items + 1 < 2 ^ 63"
  shows "\<exists>r. mask_items env seqs num_items mask_prob seq_len w = Inr r"
proof -
  let ?P = "\<lambda>x::int. - (2 ^ 63) \<le> x \<and> x < 2 ^ 63"
  obtain ms ls w1 where loop:
    "mask_seqs env (num_items + 1) mask_prob seq_len seqs ([], []) w = ((ms, ls), w1)"
    by (metis surj_pair)
  from mask_seqs_ok [OF loop] have len: "length ms = length seqs" "length ls = length seqs"
    and all: "\<forall>i<length seqs. row_ok (num_items + 1) (pad_sequence (seqs ! i) seq_len) (ms ! i) (ls ! i)"
    by simp_all
  have row: "length (ms ! i) = nat seq_len \<and> length (ls ! i) = nat seq_len \<and>
             (\<forall>x\<in>set (ms ! i). ?P x) \<and> (\<forall>x\<in>set (ls ! i). ?P x)" if "i < length seqs" for i
  proof -
    from that all have ok: "row_ok (num_items + 1) (pad_sequence (seqs ! i) seq_len) (ms ! i) (ls ! i)"
      by simp
    from that have "seqs ! i \<in> set seqs" by simp
    with assms(2) have "\<forall>x\<in>set (seqs ! i). ?P x" by blast
    with set_pad_sequence [of "seqs ! i" seq_len]
    have "\<forall>x\<in>set (pad_sequence (seqs ! i) seq_len). ?P x" by auto
    from row_ok_bounds [where P = ?P, OF ok this] assms(3,4)
    have "(\<forall>x\<in>set (ms ! i). ?P x) \<and> (\<forall>x\<in>set (ls ! i). ?P x)" by simp
    with ok length_pad_sequence [OF assms(1), of "seqs ! i"] show ?thesis
      by (simp add: row_ok_def)
  qed
  have "length r = nat seq_len \<and> (\<forall>x\<in>set r. ?P x)" if "r \<in> set ms" for r
  proof -
    from that obtain i where "i < length ms" "r = ms ! i"
      by (auto simp: in_set_conv_nth)
    with row [of i] len show ?thesis by simp
  qed
  then have "\<forall>r\<in>set ms. length r = nat seq_len" "\<forall>r\<in>set ms. \<forall>x\<in>set r. ?P x"
    by blast+
  then have m: "LongTensor ms = Inr ms" by (rule LongTensor_ok)
  have "length r = nat seq_len \<and> (\<forall>x\<in>set r. ?P x)" if "r \<in> set ls" for r
  proof -
    from that obtain i where "i < length ls" "r = ls ! i"
      by (auto simp: in_set_conv_nth)
    with row [of i] len show ?thesis by simp
  qed
  then have "\<forall>r\<in>set ls. length r = nat seq_len" "\<forall>r\<in>set ls. \<forall>x\<in>set r. ?P x"
    by blast+
  then have l: "LongTensor ls = Inr ls" by (rule LongTensor_ok)
  from loop m l show ?thesis
    by (simp add: mask_items_def)
qed

lemma stub_mask_items_all:
  "mask_items stub_env [[1, 2, 3], [4, 5], [6]] 6 1 5 0 =
     Inr (([[0, 0, 7, 7, 7], [0, 0, 0, 7, 7], [0, 0, 0, 0, 7]],
           [[0, 0, 1, 2, 3], [0, 0, 0, 4, 5], [0, 0, 0, 0, 6]]), 6)"
  by code_simp

theorem mask_items_invariant_witness:
  "(0::int) < 5 \<and> (1::nat) < length [[1, 2, 3], [4, 5], [6::int]] \<and> (3::nat) < nat 5 \<and>
   mask_items stub_env [[1, 2, 3], [4, 5], [6]] 6 1 5 0 =
     Inr (([[0, 0, 7, 7, 7], [0, 0, 0, 7, 7], [0, 0, 0, 0, 7]],
           [[0, 0, 1, 2, 3], [0, 0, 0, 4, 5], [0, 0, 0, 0, 6]]), 6) \<and>
   [[0, 0, 7, 7, 7], [0, 0, 0, 7, 7], [0, 0, 0, 0, 7::int]] ! 1 ! 3 = 6 + 1 \<and>
   [[0, 0, 1, 2, 3], [0, 0, 0, 4, 5], [0, 0, 0, 0, 6::int]] ! 1 ! 3 = pad_sequence [4, 5] 5 ! 3 \<and>
   pad_sequence [4, 5] 5 ! 3 \<noteq> 0"
  using mask_items_invariant [OF _ stub_mask_items_all, of 1 3] stub_mask_items_all
  by (simp add: pad_sequence_def numeral_eq_Suc)

lemma mask_row_prob0:
  assumes "\<forall>w. 0 \<le> fst (random_random env w)"
  shows "fst (mask_row env M 0 xs (m, l) w) = (m @ xs, l @ map (\<lambda>x. 0) xs)"
proof (induction xs arbitrary: m l w)
  case Nil
  show ?case by simp
next
  case (Cons x xs)
  from assms have "\<not> fst (random_random env w) < 0"
    by (simp add: not_less)
  then have "mask_row env M 0 (x # xs) (m, l) w =
      mask_row env M 0 xs (m @ [x], l @ [0]) (if x \<noteq> 0 then snd (random_random env w) else w)"
    by (simp add: case_prod_beta)
  then show ?case
    by (simp add: Cons.IH)
qed

lemma mask_row_prob1:
  assumes "\<forall>w. fst (random_random env w) < 1"
  shows "fst (mask_row env M 1 xs (m, l) w) = (m @ map (\<lambda>x. if x \<noteq> 0 then M else 0) xs, l @ xs)"
proof (induction xs arbitrary: m l w)
  case Nil
  show ?case by simp
next
  case (Cons x xs)
  from assms have "fst (random_random env w) < 1" by simp
  then have "mask_row env M 1 (x # xs) (m, l) w =
      (if x \<noteq> 0 then mask_row env M 1 xs (m @ [M], l @ [x]) (snd (random_random env w))
       else mask_row env M 1 xs (m @ [x], l @ [0]) w)"
    by (simp add: case_prod_beta)
  then show ?case
    by (simp add: Cons.IH)
qed

lemma mask_seqs_rows:
  assumes "\<And>xs w. fst (mask_row env M p xs ([], []) w) = (f xs, g xs)"
  shows "fst (mask_seqs env M p n seqs (ms, ls) w) =
           (ms @ map (\<lambda>s. f (pad_sequence s n)) seqs, ls @ map (\<lambda>s. g (pad_sequence s n)) seqs)"
proof (induction seqs arbitrary: ms ls w)
  case Nil
  show ?case by simp
next
  case (Cons s seqs)
  obtain a b w1 where row: "mask_row env M p (pad_sequence s n) ([], []) w = ((a, b), w1)"
    by (metis surj_pair)
  with assms [of "pad_sequence s n" w] have "a = f (pad_sequence s n)" "b = g (pad_sequence s n)"
    by simp_all
  with row show ?case
    by (simp add: Cons.IH)
qed

lemma mask_items_rows_eq:
  assumes "\<And>xs w. fst (mask_row env (num_items + 1) p xs ([], []) w) = (f xs, g xs)"
      and "mask_items env seqs num_items p seq_len w = Inr ((masked_inputs, labels), w')"
  shows "masked_inputs = map (\<lambda>s. f (pad_sequence s seq_len)) seqs \<and>
         labels = map (\<lambda>s. g (pad_sequence s seq_len)) seqs"
proof -
  obtain ms ls w1 where loop:
    "mask_seqs env (num_items + 1) p seq_len seqs ([], []) w = ((ms, ls), w1)"
    by (metis surj_pair)
  with assms(2) have "LongTensor ms = Inr masked_inputs" "LongTensor ls = Inr labels"
    by (auto simp: mask_items_def split: sum.splits)
  then have "masked_inputs = ms" "labels = ls"
    by (auto dest: LongTensor_Inr)
  moreover from mask_seqs_rows [of env "num_items + 1" p f g seq_len seqs "[]" "[]" w, OF assms(1)] loop
  have "ms = map (\<lambda>s. f (pad_sequence s seq_len)) seqs" "ls = map (\<lambda>s. g (pad_sequence s seq_len)) seqs"
    by simp_all
  ultimately show ?thesis by simp
qed

text \<open>
  Claim C5.  \<^verbatim>\<open>random.random()\<close> returns a value in \<open>[0, 1)\<close>.  Then with \<open>mask_prob = 0\<close> no
  position is masked: the inputs returned are the padded sequences and every label is zero.
  With \<open>mask_prob = 1\<close> every non-zero position of the padded sequences is replaced by
  \<open>MASK_ID\<close> and carries its original item as label, so the labels are the padded sequences.
\<close>

theorem mask_prob_extremes:
  assumes "\<forall>w. 0 \<le> fst (random_random env w) \<and> fst (random_random env w) < 1"
  shows "(mask_items env seqs num_items 0 seq_len w = Inr ((masked_inputs, labels), w') \<longrightarrow>
            masked_inputs = map (\<lambda>s. pad_sequence s seq_len) seqs \<and>
            labels = map (\<lambda>s. map (\<lambda>x. 0) (pad_sequence s seq_len)) seqs) \<and>
         (mask_items env seqs num_items 1 seq_len w = Inr ((masked_inputs, labels), w') \<longrightarrow>
            masked_inputs =
              map (\<lambda>s. map (\<lambda>x. if x \<noteq> 0 then num_items + 1 else 0) (pad_sequence s seq_len)) seqs \<and>
            labels = map (\<lambda>s. pad_sequence s seq_len) seqs)"
proof (intro conjI impI)
  assume r: "mask_items env seqs num_items 0 seq_len w = Inr ((masked_inputs, labels), w')"
  from assms have "\<forall>w. 0 \<le> fst (random_random env w)" by simp
  from mask_items_rows_eq [where f = "\<lambda>xs. xs" and g = "map (\<lambda>x. 0)", OF _ r] mask_row_prob0 [OF this]
  show "masked_inputs = map (\<lambda>s. pad_sequence s seq_len) seqs"
    and "labels = map (\<lambda>s. map (\<lambda>x. 0) (pad_sequence s seq_len)) seqs"
    by simp_all
next
  assume r: "mask_items env seqs num_items 1 seq_len w = Inr ((masked_inputs, labels), w')"
  from assms have "\<forall>w. fst (random_random env w) < 1" by simp
  from mask_items_rows_eq [where f = "map (\<lambda>x. if x \<noteq> 0 then num_items + 1 else 0)" and g = "\<lambda>xs. xs", OF _ r]
    mask_row_prob1 [OF this]
  show "masked_inputs =
      map (\<lambda>s. map (\<lambda>x. if x \<noteq> 0 then num_items + 1 else 0) (pad_sequence s seq_len)) seqs"
    and "labels = map (\<lambda>s. pad_sequence s seq_len) seqs"
    by simp_all
qed

lemma stub_draws: "\<forall>w. 0 \<le> fst (random_random stub_env w) \<and> fst (random_random stub_env w) < 1"
  by (simp add: stub_env_def)

lemma stub_mask_items_none:
  "mask_items stub_env [[1, 2, 3], [4, 5], [6]] 6 0 5 0 =
     Inr (([[0, 0, 1, 2, 3], [0, 0, 0, 4, 5], [0, 0, 0, 0, 6]],
           [[0, 0, 0, 0, 0], [0, 0, 0, 0, 0], [0, 0, 0, 0, 0]]), 6)"
  by code_simp

theorem mask_prob_extremes_witness:
  "(\<forall>w. 0 \<le> fst (random_random stub_env w) \<and> fst (random_random stub_env w) < 1) \<and>
   mask_items stub_env [[1, 2, 3], [4, 5], [6]] 6 0 5 0 =
     Inr (([[0, 0, 1, 2, 3], [0, 0, 0, 4, 5], [0, 0, 0, 0, 6]],
           [[0, 0, 0, 0, 0], [0, 0, 0, 0, 0], [0, 0, 0, 0, 0]]), 6) \<and>
   [[0, 0, 1, 2, 3], [0, 0, 0, 4, 5], [0, 0, 0, 0, 6]] =
     map (\<lambda>s. pad_sequence s 5) [[1, 2, 3], [4, 5], [6]] \<and>
   mask_items stub_env [[1, 2, 3], [4, 5], [6]] 6 1 5 0 =
     Inr (([[0, 0, 7, 7, 7], [0, 0, 0, 7, 7], [0, 0, 0, 0, 7]],
           [[0, 0, 1, 2, 3], [0, 0, 0, 4, 5], [0, 0, 0, 0, 6]]), 6) \<and>
   [[0, 0, 7, 7, 7], [0, 0, 0, 7, 7], [0, 0, 0, 0, 7::int]] =
     map (\<lambda>s. map (\<lambda>x. if x \<noteq> 0 then 6 + 1 else 0) (pad_sequence s 5)) [[1, 2, 3], [4, 5], [6]]"
proof -
  have c0: "[[0, 0, 1, 2, 3], [0, 0, 0, 4, 5], [0, 0, 0, 0, 6]] =
      map (\<lambda>s. pad_sequence s 5) [[1, 2, 3], [4, 5], [6]]"
    using mask_prob_extremes [OF stub_draws, of "[[1, 2, 3], [4, 5], [6]]" 6 5 0
      "[[0, 0, 1, 2, 3], [0, 0, 0, 4, 5], [0, 0, 0, 0, 6]]"
      "[[0, 0, 0, 0, 0], [0, 0, 0, 0, 0], [0, 0, 0, 0, 0]]" 6] stub_mask_items_none
    by blast
  have c1: "[[0, 0, 7, 7, 7], [0, 0, 0, 7, 7], [0, 0, 0, 0, 7::int]] =
      map (\<lambda>s. map (\<lambda>x. if x \<noteq> 0 then 6 + 1 else 0) (pad_sequence s 5)) [[1, 2, 3], [4, 5], [6]]"
    using mask_prob_extremes [OF stub_draws, of "[[1, 2, 3], [4, 5], [6]]" 6 5 0
      "[[0, 0, 7, 7, 7], [0, 0, 0, 7, 7], [0, 0, 0, 0, 7]]"
      "[[0, 0, 1, 2, 3], [0, 0, 0, 4, 5], [0, 0, 0, 0, 6]]" 6] stub_mask_items_all
    by blast
  from stub_draws stub_mask_items_none stub_mask_items_all c0 c1 show ?thesis
    by blast
qed

subsection \<open>Loss normalisation\<close>

lemma val_batches_fold:
  "val_batches env bs vd n p L loop acc w =
     (case val_losses env bs vd n p L loop w of
        Inl e \<Rightarrow> Inl e
      | Inr (losses, w') \<Rightarrow> Inr (foldl (float_add env) acc losses, w'))"
  by (induction loop arbitrary: acc w) (auto split: sum.splits prod.splits)

lemma val_losses_length:
  "val_losses env bs vd n p L loop w = Inr (losses, w') \<Longrightarrow> length losses = length loop"
  by (induction loop arbitrary: losses w) (auto split: sum.splits prod.splits)

lemma train_batches_loss:
  "train_batches env bs d n p L loop (acc, lr) w = Inr ((train_loss, lr'), w') \<Longrightarrow>
     \<exists>losses. train_losses env bs d n p L loop w = Inr (losses, w') \<and>
       length losses = length loop \<and> train_loss = foldl (float_add env) acc losses"
proof (induction loop arbitrary: acc lr w)
  case Nil
  then show ?case by simp
next
  case (Cons i loop)
  from Cons.prems obtain loss new_lr w1 where
    b: "train_batch env bs d n p L i w = Inr ((loss, new_lr), w1)"
    and r: "train_batches env bs d n p L loop (float_add env acc loss, Some new_lr) w1 = Inr ((train_loss, lr'), w')"
    by (auto split: sum.splits prod.splits)
  from Cons.IH [OF r] obtain losses where
    "train_losses env bs d n p L loop w1 = Inr (losses, w')" "length losses = length loop"
    "train_loss = foldl (float_add env) (float_add env acc loss) losses"
    by blast
  with b have "train_losses env bs d n p L (i # loop) w = Inr (loss # losses, w') \<and>
      length (loss # losses) = length (i # loop) \<and>
      train_loss = foldl (float_add env) acc (loss # losses)"
    by simp
  then show ?case by blast
qed

lemma foldl_plus_sum_list: "foldl (\<lambda>a b. a + b) (a::real) xs = a + sum_list xs"
  by (induction xs arbitrary: a) simp_all

lemma checkpoint_or_stall_keeps:
  "checkpoint_or_stall env cfg model_name v st = (st', stop) \<Longrightarrow>
     history st' = history st \<and> train_data st' = train_data st \<and> world st' = world st \<and>
     current_lr st' = current_lr st \<and> loop_epoch st' = loop_epoch st"
  by (auto simp: checkpoint_or_stall_def Let_def split: if_splits)

lemma run_epoch_Inr:
  assumes "run_epoch env cfg vd n p mn L epoch st = Inr (st', stop)"
  obtains data w2 loop train_loss lr w3 val_loss w4 val_ndcg val_recall w5 where
    "random_shuffle env (model_train env (world st)) (train_data st) = (data, w2)"
    "range3 0 (int (length data)) (BATCH_SIZE cfg) = Inr loop"
    "train_batches env (BATCH_SIZE cfg) data n p L loop (0, current_lr st) w2 = Inr ((train_loss, Some lr), w3)"
    "evaluate_val_loss env (BATCH_SIZE cfg) vd n p L w3 = Inr (val_loss, w4)"
    "evaluate_model env w4 vd n [10] = ((val_ndcg, val_recall), w5)"
    "data \<noteq> []"
    "checkpoint_or_stall env cfg mn val_ndcg
       (st\<lparr>world := scheduler_step env w5 val_ndcg, train_data := data,
           history := history st @
             [\<lparr>log_epoch = epoch,
               log_train_loss = float_div env train_loss (real (length data)),
               log_val_loss = val_loss, log_val_ndcg = val_ndcg,
               log_val_recall = val_recall, log_lr = lr\<rparr>],
           current_lr := Some lr, loop_epoch := Some epoch\<rparr>) = (st', stop)"
  using assms
  by (auto simp: run_epoch_def Let_def split: prod.splits sum.splits option.splits if_splits)

text \<open>
  Claim C6.  When \<open>evaluate_val_loss\<close> returns, its result is the float sum of the per-batch
  loss values (one per loop index, accumulated from \<open>0\<close> in order) divided by the number of
  sequences \<open>len(val_data)\<close>, not by the number of batches.  In the same way the
  \<open>train_loss\<close> of the log entry an epoch appends is the float sum of the per-batch training
  losses divided by the number of sequences of \<open>train_data\<close>, the list as the shuffle left
  it.  Where float arithmetic is exact, the float sum is the sum of the list.
\<close>

theorem loss_normalisation:
  "(evaluate_val_loss env batch_size val_data num_items mask_prob seq_len w = Inr (val_loss, w') \<longrightarrow>
      (\<exists>loop losses.
          range3 0 (int (length val_data)) batch_size = Inr loop \<and>
          val_losses env batch_size val_data num_items mask_prob seq_len loop (model_eval env w)
            = Inr (losses, w') \<and>
          length losses = length loop \<and>
          val_loss = float_div env (foldl (float_add env) 0 losses) (real (length val_data)) \<and>
          (float_add env = (\<lambda>a b. a + b) \<and> float_div env = (\<lambda>a b. a / b) \<longrightarrow>
             val_loss = sum_list losses / real (length val_data)))) \<and>
   (run_epoch env cfg val_data num_items mask_prob model_name seq_len epoch st = Inr (st', stop) \<longrightarrow>
      (\<exists>w2 loop losses w3.
          random_shuffle env (model_train env (world st)) (train_data st) = (train_data st', w2) \<and>
          range3 0 (int (length (train_data st'))) (BATCH_SIZE cfg) = Inr loop \<and>
          train_losses env (BATCH_SIZE cfg) (train_data st') num_items mask_prob seq_len loop w2
            = Inr (losses, w3) \<and>
          length losses = length loop \<and>
          history st' \<noteq> [] \<and>
          log_train_loss (last (history st')) =
            float_div env (foldl (float_add env) 0 losses) (real (length (train_data st'))) \<and>
          (float_add env = (\<lambda>a b. a + b) \<and> float_div env = (\<lambda>a b. a / b) \<longrightarrow>
             log_train_loss (last (history st')) = sum_list losses / real (length (train_data st')))))"
proof (intro conjI impI)
  assume r: "evaluate_val_loss env batch_size val_data num_items mask_prob seq_len w = Inr (val_loss, w')"
  then obtain loop where loop: "range3 0 (int (length val_data)) batch_size = Inr loop"
    by (auto simp: evaluate_val_loss_def Let_def split: sum.splits)
  with r obtain losses where
    l: "val_losses env batch_size val_data num_items mask_prob seq_len loop (model_eval env w) = Inr (losses, w')"
    and v: "val_loss = float_div env (foldl (float_add env) 0 losses) (real (length val_data))"
    by (auto simp: evaluate_val_loss_def Let_def val_batches_fold split: sum.splits prod.splits if_splits)
  from v have "float_add env = (\<lambda>a b. a + b) \<and> float_div env = (\<lambda>a b. a / b) \<longrightarrow>
      val_loss = sum_list losses / real (length val_data)"
    by (simp add: foldl_plus_sum_list)
  with loop l v val_losses_length [OF l]
  show "\<exists>loop losses.
          range3 0 (int (length val_data)) batch_size = Inr loop \<and>
          val_losses env batch_size val_data num_items mask_prob seq_len loop (model_eval env w)
            = Inr (losses, w') \<and>
          length losses = length loop \<and>
          val_loss = float_div env (foldl (float_add env) 0 losses) (real (length val_data)) \<and>
          (float_add env = (\<lambda>a b. a + b) \<and> float_div env = (\<lambda>a b. a / b) \<longrightarrow>
             val_loss = sum_list losses / real (length val_data))"
    by blast
next
  assume r: "run_epoch env cfg val_data num_items mask_prob model_name seq_len epoch st = Inr (st', stop)"
  from r obtain data w2 loop train_loss lr w3 val_loss w4 val_ndcg val_recall w5 where
    sh: "random_shuffle env (model_train env (world st)) (train_data st) = (data, w2)"
    and loop: "range3 0 (int (length data)) (BATCH_SIZE cfg) = Inr loop"
    and tb: "train_batches env (BATCH_SIZE cfg) data num_items mask_prob seq_len loop (0, current_lr st) w2
               = Inr ((train_loss, Some lr), w3)"
    and cp: "checkpoint_or_stall env cfg model_name val_ndcg
       (st\<lparr>world := scheduler_step env w5 val_ndcg, train_data := data,
           history := history st @
             [\<lparr>log_epoch = epoch,
               log_train_loss = float_div env train_loss (real (length data)),
               log_val_loss = val_loss, log_val_ndcg = val_ndcg,
               log_val_recall = val_recall, log_lr = lr\<rparr>],
           current_lr := Some lr, loop_epoch := Some epoch\<rparr>) = (st', stop)"
    by (rule run_epoch_Inr)
  from checkpoint_or_stall_keeps [OF cp] have d: "train_data st' = data"
    and h: "history st' = history st @
             [\<lparr>log_epoch = epoch,
               log_train_loss = float_div env train_loss (real (length data)),
               log_val_loss = val_loss, log_val_ndcg = val_ndcg,
               log_val_recall = val_recall, log_lr = lr\<rparr>]"
    by simp_all
  from train_batches_loss [OF tb] obtain losses where
    l: "train_losses env (BATCH_SIZE cfg) data num_items mask_prob seq_len loop w2 = Inr (losses, w3)"
    and n: "length losses = length loop"
    and t: "train_loss = foldl (float_add env) 0 losses"
    by blast
  from h t have v: "log_train_loss (last (history st')) =
      float_div env (foldl (float_add env) 0 losses) (real (length data))" and ne: "history st' \<noteq> []"
    by simp_all
  from v have "float_add env = (\<lambda>a b. a + b) \<and> float_div env = (\<lambda>a b. a / b) \<longrightarrow>
     log_train_loss (last (history st')) = sum_list losses / real (length data)"
    by (simp add: foldl_plus_sum_list)
  with sh loop l n v ne
  show "\<exists>w2 loop losses w3.
          random_shuffle env (model_train env (world st)) (train_data st) = (train_data st', w2) \<and>
          range3 0 (int (length (train_data st'))) (BATCH_SIZE cfg) = Inr loop \<and>
          train_losses env (BATCH_SIZE cfg) (train_data st') num_items mask_prob seq_len loop w2
            = Inr (losses, w3) \<and>
          length losses = length loop \<and>
          history st' \<noteq> [] \<and>
          log_train_loss (last (history st')) =
            float_div env (foldl (float_add env) 0 losses) (real (length (train_data st'))) \<and>
          (float_add env = (\<lambda>a b. a + b) \<and> float_div env = (\<lambda>a b. a / b) \<longrightarrow>
             log_train_loss (last (history st')) = sum_list losses / real (length (train_data st')))"
    unfolding d by blast
qed


lemma stub_exact:
  "float_add stub_env = (\<lambda>a b. a + b) \<and> float_div stub_env = (\<lambda>a b. a / b)"
  by (simp add: stub_env_def)

lemma stub_epoch1:
  "run_epoch stub_env stub_config [[2, 1]] 4 (3 / 20) None 3 1 stub_state0 = Inr (stub_state1, False)"
  by code_simp

lemma stub_val_loss:
  "evaluate_val_loss stub_env 2 [[1, 2, 3], [4, 5], [6]] 6 1 5 0 = Inr (2 / 3, 6)"
  by code_simp

theorem loss_normalisation_witness:
  "evaluate_val_loss stub_env 2 [[1, 2, 3], [4, 5], [6]] 6 1 5 0 = Inr (2 / 3, 6) \<and>
   (\<exists>loop losses.
      range3 0 (int (length [[1, 2, 3], [4, 5], [6::int]])) 2 = Inr loop \<and>
      val_losses stub_env 2 [[1, 2, 3], [4, 5], [6]] 6 1 5 loop (model_eval stub_env 0) = Inr (losses, 6) \<and>
      length losses = length loop \<and>
      2 / 3 = sum_list losses / real (length [[1, 2, 3], [4, 5], [6::int]])) \<and>
   run_epoch stub_env stub_config [[2, 1]] 4 (3 / 20) None 3 1 stub_state0 = Inr (stub_state1, False) \<and>
   (\<exists>w2 loop losses w3.
      train_losses stub_env (BATCH_SIZE stub_config) (train_data stub_state1) 4 (3 / 20) 3 loop w2
        = Inr (losses, w3) \<and>
      length losses = length loop \<and>
      log_train_loss (last (history stub_state1)) =
        sum_list losses / real (length (train_data stub_state1)))"
proof -
  have "\<exists>loop losses.
      range3 0 (int (length [[1, 2, 3], [4, 5], [6::int]])) 2 = Inr loop \<and>
      val_losses stub_env 2 [[1, 2, 3], [4, 5], [6]] 6 1 5 loop (model_eval stub_env 0) = Inr (losses, 6) \<and>
      length losses = length loop \<and>
      2 / 3 = sum_list losses / real (length [[1, 2, 3], [4, 5], [6::int]])"
    using loss_normalisation [where env = stub_env and batch_size = 2
        and val_data = "[[1, 2, 3], [4, 5], [6]]" and num_items = 6 and mask_prob = 1
        and seq_len = 5 and w = 0 and val_loss = "2 / 3" and w' = 6]
      stub_val_loss stub_exact
    by blast
  moreover have "\<exists>w2 loop losses w3.
      train_losses stub_env (BATCH_SIZE stub_config) (train_data stub_state1) 4 (3 / 20) 3 loop w2
        = Inr (losses, w3) \<and>
      length losses = length loop \<and>
      log_train_loss (last (history stub_state1)) =
        sum_list losses / real (length (train_data stub_state1))"
    using loss_normalisation [where env = stub_env and cfg = stub_config
        and val_data = "[[2, 1]]" and num_items = 4 and mask_prob = "3 / 20"
        and model_name = None and seq_len = 3 and epoch = 1 and st = stub_state0
        and st' = stub_state1 and stop = False]
      stub_epoch1 stub_exact
    by blast
  ultimately show ?thesis
    using stub_val_loss stub_epoch1 by blast
qed

lemma set_slice: "set (slice xs i j) \<subseteq> set xs"
  by (auto simp: slice_def Let_def dest: in_set_takeD in_set_dropD)

lemma val_losses_returns:
  assumes "0 < seq_len"
      and "\<forall>s\<in>set val_data. \<forall>x\<in>set s. - (2 ^ 63) \<le> x \<and> x < 2 ^ 63"
      and "- (2 ^ 63) \<le> num_items + 1" and "num_items + 1 < 2 ^ 63"
  shows "\<exists>r. val_losses env batch_size val_data num_items mask_prob seq_len loop w = Inr r"
proof (induction loop arbitrary: w)
  case Nil
  show ?case by simp
next
  case (Cons i loop)
  from assms(2) set_slice [of val_data i "i + batch_size"]
  have "\<forall>s\<in>set (slice val_data i (i + batch_size)). \<forall>x\<in>set s. - (2 ^ 63) \<le> x \<and> x < 2 ^ 63"
    by blast
  from mask_items_returns [OF assms(1) this assms(3,4)]
  obtain m l w1 where
    "mask_items env (slice val_data i (i + batch_size)) num_items mask_prob seq_len w = Inr ((m, l), w1)"
    by (metis surj_pair)
  then obtain loss w2 where
    b: "val_batch_loss env batch_size val_data num_items mask_prob seq_len i w = Inr (loss, w2)"
    by (simp add: val_batch_loss_def Let_def case_prod_beta)
  from Cons.IH [of w2] obtain losses w3 where
    "val_losses env batch_size val_data num_items mask_prob seq_len loop w2 = Inr (losses, w3)"
    by (metis surj_pair)
  with b show ?case by simp
qed

text \<open>
  Claim C10.  On an empty data set \<open>evaluate_val_loss\<close> never returns a value: for a
  non-zero batch size the loop body is not entered and the division
  \<^verbatim>\<open>total_loss / len(val_data)\<close> raises \<open>ZeroDivisionError\<close> (a zero batch size makes
  \<^verbatim>\<open>range\<close> raise before that).  On a non-empty data set whose batches \<open>mask_items\<close>
  accepts, it returns.
\<close>

theorem evaluate_val_loss_empty:
  "(batch_size \<noteq> 0 \<longrightarrow>
      evaluate_val_loss env batch_size [] num_items mask_prob seq_len w = Inl ZeroDivisionError) \<and>
   (\<forall>r. evaluate_val_loss env batch_size [] num_items mask_prob seq_len w \<noteq> Inr r) \<and>
   (val_data \<noteq> [] \<and> batch_size \<noteq> 0 \<and> 0 < seq_len \<and>
    (\<forall>s\<in>set val_data. \<forall>x\<in>set s. - (2 ^ 63) \<le> x \<and> x < 2 ^ 63) \<and>
    - (2 ^ 63) \<le> num_items + 1 \<and> num_items + 1 < 2 ^ 63 \<longrightarrow>
      (\<exists>r. evaluate_val_loss env batch_size val_data num_items mask_prob seq_len w = Inr r))"
proof (intro conjI impI allI)
  assume "batch_size \<noteq> 0"
  then have "range3 0 (int (length ([]::int list list))) batch_size = Inr []"
    by (simp add: range3_def)
  then show "evaluate_val_loss env batch_size [] num_items mask_prob seq_len w = Inl ZeroDivisionError"
    by (simp add: evaluate_val_loss_def)
next
  fix r
  show "evaluate_val_loss env batch_size [] num_items mask_prob seq_len w \<noteq> Inr r"
    by (auto simp: evaluate_val_loss_def Let_def split: sum.splits prod.splits)
next
  assume a: "val_data \<noteq> [] \<and> batch_size \<noteq> 0 \<and> 0 < seq_len \<and>
    (\<forall>s\<in>set val_data. \<forall>x\<in>set s. - (2 ^ 63) \<le> x \<and> x < 2 ^ 63) \<and>
    - (2 ^ 63) \<le> num_items + 1 \<and> num_items + 1 < 2 ^ 63"
  then have "\<exists>loop. range3 0 (int (length val_data)) batch_size = Inr loop"
    by (simp add: range3_def)
  then obtain loop where loop: "range3 0 (int (length val_data)) batch_size = Inr loop"
    by blast
  from a have "\<exists>r. val_losses env batch_size val_data num_items mask_prob seq_len loop (model_eval env w) = Inr r"
    by (intro val_losses_returns) simp_all
  then obtain losses w1 where
    "val_losses env batch_size val_data num_items mask_prob seq_len loop (model_eval env w) = Inr (losses, w1)"
    by (metis surj_pair)
  with loop a show "\<exists>r. evaluate_val_loss env batch_size val_data num_items mask_prob seq_len w = Inr r"
    by (simp add: evaluate_val_loss_def val_batches_fold)
qed

theorem evaluate_val_loss_empty_witness:
  "(2::int) \<noteq> 0 \<and> evaluate_val_loss stub_env 2 [] 6 1 5 0 = Inl ZeroDivisionError \<and>
   [[1, 2, 3], [4, 5], [6::int]] \<noteq> [] \<and> (0::int) < 5 \<and>
   - (2 ^ 63) \<le> (6::int) + 1 \<and> (6::int) + 1 < 2 ^ 63 \<and>
   (\<exists>r. evaluate_val_loss stub_env 2 [[1, 2, 3], [4, 5], [6]] 6 1 5 0 = Inr r)"
proof -
  have "(2::int) \<noteq> 0" by simp
  moreover have "[[1, 2, 3], [4, 5], [6::int]] \<noteq> [] \<and> (0::int) < 5 \<and>
   (\<forall>s\<in>set [[1, 2, 3], [4, 5], [6::int]]. \<forall>x\<in>set s. - (2 ^ 63) \<le> x \<and> x < 2 ^ 63) \<and>
   - (2 ^ 63) \<le> (6::int) + 1 \<and> (6::int) + 1 < 2 ^ 63"
    by simp
  ultimately show ?thesis
    using evaluate_val_loss_empty [of 2 stub_env 6 1 5 0 "[[1, 2, 3], [4, 5], [6]]"]
    by blast
qed

subsection \<open>The decision at the end of an epoch\<close>

lemma checkpoint_or_stall_improved:
  assumes "checkpoint_or_stall env cfg model_name v st = (st', stop)"
      and "v > float_add env (best_ndcg st) tolerance"
  shows "best_ndcg st' = v \<and> patience_counter st' = 0 \<and> \<not> stop \<and>
         fs st' = fs st @
           (case model_name of
              None \<Rightarrow> []
            | Some name \<Rightarrow>
                if name = [] then []
                else [MakeDirs ''models'',
                      TorchSave (path_join ''models'' name) (state_dict env (world st))])"
  using assms by (auto simp: checkpoint_or_stall_def)

lemma checkpoint_or_stall_stalled:
  assumes "checkpoint_or_stall env cfg model_name v st = (st', stop)"
      and "\<not> v > float_add env (best_ndcg st) tolerance"
  shows "best_ndcg st' = best_ndcg st \<and> patience_counter st' = patience_counter st + 1 \<and>
         (stop \<longleftrightarrow> patience_counter st + 1 \<ge> PATIENCE cfg) \<and> fs st' = fs st"
  using assms by (auto simp: checkpoint_or_stall_def Let_def)

lemma run_epoch_decision:
  assumes "run_epoch env cfg vd n p mn L epoch st = Inr (st', stop)"
  obtains entry st1 where
    "history st' = history st @ [entry]" "log_epoch entry = epoch" "loop_epoch st' = Some epoch"
    "best_ndcg st1 = best_ndcg st" "patience_counter st1 = patience_counter st" "fs st1 = fs st"
    "world st1 = world st'"
    "checkpoint_or_stall env cfg mn (log_val_ndcg entry) st1 = (st', stop)"
proof -
  from assms obtain data w2 loop train_loss lr w3 val_loss w4 val_ndcg val_recall w5 where
    cp: "checkpoint_or_stall env cfg mn val_ndcg
       (st\<lparr>world := scheduler_step env w5 val_ndcg, train_data := data,
           history := history st @
             [\<lparr>log_epoch = epoch,
               log_train_loss = float_div env train_loss (real (length data)),
               log_val_loss = val_loss, log_val_ndcg = val_ndcg,
               log_val_recall = val_recall, log_lr = lr\<rparr>],
           current_lr := Some lr, loop_epoch := Some epoch\<rparr>) = (st', stop)"
    by (rule run_epoch_Inr)
  let ?entry = "\<lparr>log_epoch = epoch,
               log_train_loss = float_div env train_loss (real (length data)),
               log_val_loss = val_loss, log_val_ndcg = val_ndcg,
               log_val_recall = val_recall, log_lr = lr\<rparr>"
  let ?st1 = "st\<lparr>world := scheduler_step env w5 val_ndcg, train_data := data,
           history := history st @ [?entry],
           current_lr := Some lr, loop_epoch := Some epoch\<rparr>"
  from checkpoint_or_stall_keeps [OF cp]
  have k: "history st' = history st @ [?entry]" "loop_epoch st' = Some epoch" "world ?st1 = world st'"
    by simp_all
  from cp have c: "checkpoint_or_stall env cfg mn (log_val_ndcg ?entry) ?st1 = (st', stop)"
    by simp
  show thesis
    by (rule that [of ?entry ?st1]) (use k c in simp_all)
qed

text \<open>
  Claim C3, as the code has it.  In an epoch that completes, let \<open>v\<close> be the \<open>val_ndcg\<close> it
  logged.  If \<open>v\<close> exceeds the float sum of the best value and \<open>1e-4\<close>, the best value becomes
  \<open>v\<close>, the stall counter becomes \<open>0\<close> and the loop goes on; otherwise the best value stays and
  the counter grows by one.  The checkpoint is written (after \<open>models\<close> is created, with the
  parameters of the model at the end of the epoch) exactly when \<open>v\<close> exceeds that sum and
  a non-empty \<open>model_name\<close> was given; in every other case the epoch leaves the file system
  alone.
\<close>

theorem checkpoint_decision:
  assumes "run_epoch env cfg val_data num_items mask_prob model_name seq_len epoch st = Inr (st', stop)"
  shows "history st' \<noteq> [] \<and>
         (let v = log_val_ndcg (last (history st'));
              improved = (v > float_add env (best_ndcg st) tolerance);
              named = (model_name \<noteq> None \<and> model_name \<noteq> Some [])
          in (improved \<longrightarrow> best_ndcg st' = v \<and> patience_counter st' = 0 \<and> \<not> stop) \<and>
             (\<not> improved \<longrightarrow>
                best_ndcg st' = best_ndcg st \<and> patience_counter st' = patience_counter st + 1) \<and>
             (improved \<and> named \<longrightarrow>
                fs st' = fs st @ [MakeDirs ''models'',
                                  TorchSave (path_join ''models'' (the model_name))
                                    (state_dict env (world st'))]) \<and>
             (\<not> (improved \<and> named) \<longrightarrow> fs st' = fs st))"
proof -
  from assms obtain entry st1 where
    h: "history st' = history st @ [entry]"
    and s: "best_ndcg st1 = best_ndcg st" "patience_counter st1 = patience_counter st"
      "fs st1 = fs st" "world st1 = world st'"
    and cp: "checkpoint_or_stall env cfg model_name (log_val_ndcg entry) st1 = (st', stop)"
    by (rule run_epoch_decision)
  from h have v: "log_val_ndcg (last (history st')) = log_val_ndcg entry" and ne: "history st' \<noteq> []"
    by simp_all
  show ?thesis
  proof (cases "log_val_ndcg entry > float_add env (best_ndcg st) tolerance")
    case True
    with s have "log_val_ndcg entry > float_add env (best_ndcg st1) tolerance" by simp
    from checkpoint_or_stall_improved [OF cp this] s True v ne show ?thesis
      by (auto simp: Let_def split: option.splits)
  next
    case False
    with s have "\<not> log_val_ndcg entry > float_add env (best_ndcg st1) tolerance" by simp
    from checkpoint_or_stall_stalled [OF cp this] s False v ne show ?thesis
      by (simp add: Let_def)
  qed
qed

lemma stub_epoch1_named:
  "run_epoch stub_env stub_config [[2, 1]] 4 (3 / 20) (Some ''best.pt'') 3 1 stub_state0 =
     Inr (stub_state1\<lparr>fs := [MakeDirs ''models'', TorchSave ''models/best.pt'' 11]\<rparr>, False)"
  by code_simp

theorem checkpoint_decision_witness:
  "run_epoch stub_env stub_config [[2, 1]] 4 (3 / 20) (Some ''best.pt'') 3 1 stub_state0 =
     Inr (stub_state1\<lparr>fs := [MakeDirs ''models'', TorchSave ''models/best.pt'' 11]\<rparr>, False) \<and>
   log_val_ndcg (last (history (stub_state1\<lparr>fs := [MakeDirs ''models'', TorchSave ''models/best.pt'' 11]\<rparr>)))
     > float_add stub_env (best_ndcg stub_state0) tolerance \<and>
   best_ndcg (stub_state1\<lparr>fs := [MakeDirs ''models'', TorchSave ''models/best.pt'' 11]\<rparr>) = 1 / 2 \<and>
   patience_counter (stub_state1\<lparr>fs := [MakeDirs ''models'', TorchSave ''models/best.pt'' 11]\<rparr>) = 0 \<and>
   fs (stub_state1\<lparr>fs := [MakeDirs ''models'', TorchSave ''models/best.pt'' 11]\<rparr>) =
     fs stub_state0 @ [MakeDirs ''models'', TorchSave (path_join ''models'' ''best.pt'') 11]"
  using checkpoint_decision [OF stub_epoch1_named] stub_epoch1_named
  by (simp add: Let_def stub_state1_def stub_state0_def stub_entry_def stub_env_def tolerance_def
      path_join_def)

text \<open>
  Claim C3 as stated, for every epoch of \<open>train_model\<close>, fails when no model name is given:
  the first epoch below logs \<open>val_ndcg = 1/2\<close>, which exceeds \<open>0 + 1e-4\<close>, and writes nothing.
\<close>

theorem checkpoint_iff_counterexample:
  "run_epoch stub_env stub_config [[2, 1]] 4 (3 / 20) None 3 1 stub_state0 = Inr (stub_state1, False) \<and>
   log_val_ndcg (last (history stub_state1)) > float_add stub_env (best_ndcg stub_state0) tolerance \<and>
   fs stub_state1 = fs stub_state0"
  using stub_epoch1
  by (simp add: stub_state1_def stub_state0_def stub_entry_def stub_env_def tolerance_def)

subsection \<open>Training without a model name\<close>

lemma checkpoint_or_stall_unnamed:
  assumes "checkpoint_or_stall env cfg model_name v st = (st', stop)"
      and "model_name = None \<or> model_name = Some []"
  shows "fs st' = fs st"
  using assms by (auto simp: checkpoint_or_stall_def Let_def split: if_splits)

lemma run_epoch_unnamed:
  assumes "run_epoch env cfg vd n p None L epoch st = Inr (st', stop)"
  shows "fs st' = fs st"
proof -
  from assms obtain entry :: log_entry and st1 where "fs st1 = fs st"
    and "checkpoint_or_stall env cfg None (log_val_ndcg entry) st1 = (st', stop)"
    by (rule run_epoch_decision)
  with checkpoint_or_stall_unnamed [of env cfg None "log_val_ndcg entry" st1 st' stop]
  show ?thesis by simp
qed

lemma epoch_loop_unnamed:
  "epoch_loop env cfg vd n p None L es st = Inr st' \<Longrightarrow> fs st' = fs st"
proof (induction es arbitrary: st)
  case Nil
  then show ?case by simp
next
  case (Cons e es)
  from Cons.prems obtain st1 stop where
    r: "run_epoch env cfg vd n p None L e st = Inr (st1, stop)"
    and l: "(if stop then Inr st1 else epoch_loop env cfg vd n p None L es st1) = Inr st'"
    by (auto split: sum.splits)
  from run_epoch_unnamed [OF r] have "fs st1 = fs st" .
  with l Cons.IH [of st1] show ?case
    by (auto split: if_splits)
qed

lemma train_model_Inr:
  assumes "train_model env cfg w data vd n p mn rn epochs L = Inr (h, final)"
  obtains st name where
    "epoch_loop env cfg vd n p mn L [1..epochs]
       \<lparr>world = setup_training env w (LR cfg), fs = [], train_data = data,
        history = [], best_ndcg = 0, patience_counter = 0,
        current_lr = None, loop_epoch = None\<rparr> = Inr st"
    "rn = Some name" "h = history st"
    "final = st\<lparr>fs := fs st @ [MakeDirs ''results'', JsonDump (path_join ''results'' name) (history st)]\<rparr>"
  using assms
  by (auto simp: train_model_def Let_def split: sum.splits option.splits)

text \<open>
  Claim C9.  With \<open>model_name = None\<close> an epoch leaves the file system alone even when its
  \<open>val_ndcg\<close> exceeds the float sum of the best value and \<open>1e-4\<close>, while the best value and
  the stall counter are updated as usual.  So all that \<open>train_model\<close> writes is the history
  file, and the script body, which passes no model name, writes \<open>results/config_1.json\<close>
  and no checkpoint.
\<close>

theorem no_checkpoint_without_name:
  "(run_epoch env cfg val_data num_items mask_prob None seq_len epoch st = Inr (st', stop) \<longrightarrow>
      fs st' = fs st \<and>
      (let v = log_val_ndcg (last (history st'))
       in (v > float_add env (best_ndcg st) tolerance \<longrightarrow>
             best_ndcg st' = v \<and> patience_counter st' = 0) \<and>
          (\<not> v > float_add env (best_ndcg st) tolerance \<longrightarrow>
             best_ndcg st' = best_ndcg st \<and> patience_counter st' = patience_counter st + 1))) \<and>
   (train_model env cfg w data val_data num_items mask_prob None result_name epochs seq_len
      = Inr (h, final) \<longrightarrow>
      (\<exists>name. result_name = Some name \<and>
         fs final = [MakeDirs ''results'', JsonDump (path_join ''results'' name) h])) \<and>
   (main env cfg disk w = Inr (h, final) \<longrightarrow>
      fs final = [MakeDirs ''results'', JsonDump ''results/config_1.json'' h])"
proof (intro conjI impI)
  assume r: "run_epoch env cfg val_data num_items mask_prob None seq_len epoch st = Inr (st', stop)"
  from run_epoch_unnamed [OF r] show "fs st' = fs st" .
  from r obtain entry st1 where
    h: "history st' = history st @ [entry]"
    and s: "best_ndcg st1 = best_ndcg st" "patience_counter st1 = patience_counter st"
    and cp: "checkpoint_or_stall env cfg None (log_val_ndcg entry) st1 = (st', stop)"
    by (rule run_epoch_decision)
  from h have v: "log_val_ndcg (last (history st')) = log_val_ndcg entry" by simp
  show "let v = log_val_ndcg (last (history st'))
       in (v > float_add env (best_ndcg st) tolerance \<longrightarrow>
             best_ndcg st' = v \<and> patience_counter st' = 0) \<and>
          (\<not> v > float_add env (best_ndcg st) tolerance \<longrightarrow>
             best_ndcg st' = best_ndcg st \<and> patience_counter st' = patience_counter st + 1)"
  proof (cases "log_val_ndcg entry > float_add env (best_ndcg st) tolerance")
    case True
    with s have "log_val_ndcg entry > float_add env (best_ndcg st1) tolerance" by simp
    from checkpoint_or_stall_improved [OF cp this] True v show ?thesis
      by (simp add: Let_def)
  next
    case False
    with s have "\<not> log_val_ndcg entry > float_add env (best_ndcg st1) tolerance" by simp
    from checkpoint_or_stall_stalled [OF cp this] s False v show ?thesis
      by (simp add: Let_def)
  qed
next
  assume t: "train_model env cfg w data val_data num_items mask_prob None result_name epochs seq_len
      = Inr (h, final)"
  then obtain st name where
    l: "epoch_loop env cfg val_data num_items mask_prob None seq_len [1..epochs]
       \<lparr>world = setup_training env w (LR cfg), fs = [], train_data = data,
        history = [], best_ndcg = 0, patience_counter = 0,
        current_lr = None, loop_epoch = None\<rparr> = Inr st"
    and f: "result_name = Some name" "h = history st"
      "final = st\<lparr>fs := fs st @ [MakeDirs ''results'', JsonDump (path_join ''results'' name) (history st)]\<rparr>"
    by (rule train_model_Inr)
  from epoch_loop_unnamed [OF l] have "fs st = []" by simp
  with f show "\<exists>name. result_name = Some name \<and>
         fs final = [MakeDirs ''results'', JsonDump (path_join ''results'' name) h]"
    by simp
next
  assume m: "main env cfg disk w = Inr (h, final)"
  then obtain tr va te n where
    t: "train_model env cfg (BERT4Rec env w n) tr va n (MASK_PROB cfg) None (Some ''config_1.json'')
          (EPOCHS cfg) 50 = Inr (h, final)"
    by (auto simp: main_def split: sum.splits)
  then obtain st name where
    l: "epoch_loop env cfg va n (MASK_PROB cfg) None 50 [1..EPOCHS cfg]
       \<lparr>world = setup_training env (BERT4Rec env w n) (LR cfg), fs = [], train_data = tr,
        history = [], best_ndcg = 0, patience_counter = 0,
        current_lr = None, loop_epoch = None\<rparr> = Inr st"
    and f: "Some ''config_1.json'' = Some name" "h = history st"
      "final = st\<lparr>fs := fs st @ [MakeDirs ''results'', JsonDump (path_join ''results'' name) (history st)]\<rparr>"
    by (rule train_model_Inr)
  from epoch_loop_unnamed [OF l] have "fs st = []" by simp
  moreover have "path_join ''results'' ''config_1.json'' = ''results/config_1.json''"
    by (simp add: path_join_def)
  ultimately show "fs final = [MakeDirs ''results'', JsonDump ''results/config_1.json'' h]"
    using f by auto
qed

lemma stub_train_model:
  "train_model stub_env stub_config 0 [[1, 2], [3], [1, 2, 3, 4]] [[2, 1]] 4 (3 / 20) None
      (Some ''config_1.json'') 3 3 =
     Inr ([stub_entry 1, stub_entry 2],
          stub_state2\<lparr>fs := [MakeDirs ''results'',
                              JsonDump ''results/config_1.json'' [stub_entry 1, stub_entry 2]]\<rparr>)"
  by code_simp

lemma stub_main:
  "main stub_env stub_config stub_disk 0 =
     Inr ([stub_entry 1, stub_entry 2],
          stub_state2\<lparr>world := 24,
                      fs := [MakeDirs ''results'',
                              JsonDump ''results/config_1.json'' [stub_entry 1, stub_entry 2]]\<rparr>)"
  by code_simp

theorem no_checkpoint_without_name_witness:
  "run_epoch stub_env stub_config [[2, 1]] 4 (3 / 20) None 3 1 stub_state0 = Inr (stub_state1, False) \<and>
   fs stub_state1 = fs stub_state0 \<and>
   log_val_ndcg (last (history stub_state1)) > float_add stub_env (best_ndcg stub_state0) tolerance \<and>
   best_ndcg stub_state1 = log_val_ndcg (last (history stub_state1)) \<and>
   patience_counter stub_state1 = 0 \<and>
   main stub_env stub_config stub_disk 0 =
     Inr ([stub_entry 1, stub_entry 2],
          stub_state2\<lparr>world := 24,
                      fs := [MakeDirs ''results'',
                              JsonDump ''results/config_1.json'' [stub_entry 1, stub_entry 2]]\<rparr>) \<and>
   fs (stub_state2\<lparr>world := 24,
                    fs := [MakeDirs ''results'',
                            JsonDump ''results/config_1.json'' [stub_entry 1, stub_entry 2]]\<rparr>) =
     [MakeDirs ''results'', JsonDump ''results/config_1.json'' [stub_entry 1, stub_entry 2]]"
proof -
  have gt: "log_val_ndcg (last (history stub_state1)) > float_add stub_env (best_ndcg stub_state0) tolerance"
    by (simp add: stub_state1_def stub_state0_def stub_entry_def stub_env_def tolerance_def)
  from no_checkpoint_without_name [where env = stub_env and cfg = stub_config
      and val_data = "[[2, 1]]" and num_items = 4 and mask_prob = "3 / 20" and seq_len = 3
      and epoch = 1 and st = stub_state0 and st' = stub_state1 and stop = False]
    stub_epoch1 gt
  have "fs stub_state1 = fs stub_state0 \<and>
     best_ndcg stub_state1 = log_val_ndcg (last (history stub_state1)) \<and>
     patience_counter stub_state1 = 0"
    by (simp add: Let_def)
  moreover
  from no_checkpoint_without_name [where env = stub_env and cfg = stub_config and disk = stub_disk
      and w = 0 and h = "[stub_entry 1, stub_entry 2]"
      and final = "stub_state2\<lparr>world := 24,
                      fs := [MakeDirs ''results'',
                              JsonDump ''results/config_1.json'' [stub_entry 1, stub_entry 2]]\<rparr>"]
    stub_main
  have "fs (stub_state2\<lparr>world := 24,
                    fs := [MakeDirs ''results'',
                            JsonDump ''results/config_1.json'' [stub_entry 1, stub_entry 2]]\<rparr>) =
     [MakeDirs ''results'', JsonDump ''results/config_1.json'' [stub_entry 1, stub_entry 2]]"
    by blast
  ultimately show ?thesis
    using stub_epoch1 stub_main gt by blast
qed

subsection \<open>Early stopping\<close>

lemma run_epoch_patience:
  assumes "1 \<le> PATIENCE cfg" and "patience_counter st < PATIENCE cfg"
      and "run_epoch env cfg vd n p mn L epoch st = Inr (st', stop)"
  shows "(stop \<longleftrightarrow> patience_counter st' = PATIENCE cfg) \<and>
         (\<not> stop \<longrightarrow> patience_counter st' < PATIENCE cfg) \<and>
         patience_counter st' \<le> PATIENCE cfg"
proof -
  from assms(3) obtain entry :: log_entry and st1 where
    s: "best_ndcg st1 = best_ndcg st" "patience_counter st1 = patience_counter st"
    and cp: "checkpoint_or_stall env cfg mn (log_val_ndcg entry) st1 = (st', stop)"
    by (rule run_epoch_decision)
  show ?thesis
  proof (cases "log_val_ndcg entry > float_add env (best_ndcg st1) tolerance")
    case True
    from checkpoint_or_stall_improved [OF cp True] assms(1) show ?thesis
      by simp
  next
    case False
    from checkpoint_or_stall_stalled [OF cp False] s assms(2) show ?thesis
      by auto
  qed
qed

lemma run_epoch_history:
  assumes "run_epoch env cfg vd n p mn L epoch st = Inr (st', stop)"
  shows "\<exists>entry. history st' = history st @ [entry] \<and> log_epoch entry = epoch \<and>
                 loop_epoch st' = Some epoch"
proof -
  from assms obtain entry st1 where
    "history st' = history st @ [entry]" "log_epoch entry = epoch" "loop_epoch st' = Some epoch"
    "checkpoint_or_stall env cfg mn (log_val_ndcg entry) st1 = (st', stop)"
    by (rule run_epoch_decision)
  then show ?thesis by blast
qed

lemma epoch_loop_patience:
  assumes "1 \<le> PATIENCE cfg"
  shows "patience_counter st < PATIENCE cfg \<Longrightarrow>
         epoch_loop env cfg vd n p mn L es st = Inr st' \<Longrightarrow>
         patience_counter st' \<le> PATIENCE cfg \<and>
         (patience_counter st' < PATIENCE cfg \<longrightarrow>
            length (history st') = length (history st) + length es)"
proof (induction es arbitrary: st)
  case Nil
  then show ?case by simp
next
  case (Cons e es)
  from Cons.prems(2) obtain st1 stop where
    r: "run_epoch env cfg vd n p mn L e st = Inr (st1, stop)"
    and l: "(if stop then Inr st1 else epoch_loop env cfg vd n p mn L es st1) = Inr st'"
    by (auto split: sum.splits)
  from run_epoch_patience [OF assms Cons.prems(1) r]
  have p: "stop \<longleftrightarrow> patience_counter st1 = PATIENCE cfg"
    "\<not> stop \<longrightarrow> patience_counter st1 < PATIENCE cfg" by simp_all
  from run_epoch_history [OF r] have h: "length (history st1) = length (history st) + 1"
    by auto
  show ?case
  proof (cases stop)
    case True
    with l p show ?thesis by simp
  next
    case False
    with l p have "patience_counter st1 < PATIENCE cfg"
      and "epoch_loop env cfg vd n p mn L es st1 = Inr st'" by simp_all
    from Cons.IH [OF this] h show ?thesis by simp
  qed
qed

lemma run_epoch_counter:
  assumes "run_epoch env cfg vd n p mn L epoch st = Inr (st', stop)"
  shows "history st' \<noteq> [] \<and>
         (let improved = (log_val_ndcg (last (history st')) > float_add env (best_ndcg st) tolerance)
          in (stop \<longleftrightarrow> \<not> improved \<and> PATIENCE cfg \<le> patience_counter st + 1) \<and>
             (improved \<longrightarrow> patience_counter st' = 0) \<and>
             (\<not> improved \<longrightarrow> patience_counter st' = patience_counter st + 1))"
proof -
  from assms obtain entry st1 where
    h: "history st' = history st @ [entry]"
    and s: "best_ndcg st1 = best_ndcg st" "patience_counter st1 = patience_counter st"
    and cp: "checkpoint_or_stall env cfg mn (log_val_ndcg entry) st1 = (st', stop)"
    by (rule run_epoch_decision)
  from h have v: "log_val_ndcg (last (history st')) = log_val_ndcg entry" and ne: "history st' \<noteq> []"
    by simp_all
  show ?thesis
  proof (cases "log_val_ndcg entry > float_add env (best_ndcg st) tolerance")
    case True
    with s have "log_val_ndcg entry > float_add env (best_ndcg st1) tolerance" by simp
    from checkpoint_or_stall_improved [OF cp this] True v ne show ?thesis
      by (simp add: Let_def)
  next
    case False
    with s have "\<not> log_val_ndcg entry > float_add env (best_ndcg st1) tolerance" by simp
    from checkpoint_or_stall_stalled [OF cp this] s False v ne show ?thesis
      by (simp add: Let_def)
  qed
qed

lemma epoch_loop_early:
  "0 \<le> patience_counter st \<Longrightarrow>
   epoch_loop env cfg vd n p mn L es st = Inr st' \<Longrightarrow>
   0 \<le> patience_counter st' \<and>
   (length (history st') < length (history st) + length es \<longrightarrow>
      PATIENCE cfg \<le> patience_counter st' \<and> 1 \<le> patience_counter st')"
proof (induction es arbitrary: st)
  case Nil
  then show ?case by simp
next
  case (Cons e es)
  from Cons.prems(2) obtain st1 stop where
    r: "run_epoch env cfg vd n p mn L e st = Inr (st1, stop)"
    and l: "(if stop then Inr st1 else epoch_loop env cfg vd n p mn L es st1) = Inr st'"
    by (auto split: sum.splits)
  from run_epoch_counter [OF r] Cons.prems(1)
  have c: "0 \<le> patience_counter st1"
    and b: "stop \<longrightarrow> PATIENCE cfg \<le> patience_counter st1 \<and> 1 \<le> patience_counter st1"
    by (auto simp: Let_def)
  from run_epoch_history [OF r] have h: "length (history st1) = length (history st) + 1"
    by auto
  show ?case
  proof (cases stop)
    case True
    with l c b show ?thesis by simp
  next
    case False
    with l have "epoch_loop env cfg vd n p mn L es st1 = Inr st'" by simp
    from Cons.IH [OF c this] h show ?thesis by simp
  qed
qed

text \<open>
  Claim C4, as the code has it.  An epoch that completes leaves the loop by \<^verbatim>\<open>break\<close>
  exactly when its \<open>val_ndcg\<close> does not exceed the float sum of the best value and \<open>1e-4\<close>
  and the stall counter, grown by one in that epoch, is at least the patience; an epoch
  that improves sets the counter to \<open>0\<close> and never breaks.  When it breaks, the state after
  that epoch is the result of the loop and the remaining epochs are not run.  So a run of
  \<open>train_model\<close> that executed fewer epochs than configured ended with a counter of at
  least \<open>1\<close> and at least the patience.  For a patience of at least \<open>1\<close> this is the claim:
  an epoch entered with the counter below the patience breaks exactly when it brings the
  counter to the patience and otherwise leaves it below the patience, the counter of a run
  never exceeds the patience, a run whose counter ends below the patience has executed
  every epoch, and a run that executed fewer epochs ended with the counter equal to the
  patience.
\<close>

theorem early_stop_decision:
  "(run_epoch env cfg val_data num_items mask_prob model_name seq_len epoch st = Inr (st', stop) \<longrightarrow>
      history st' \<noteq> [] \<and>
      (let improved = (log_val_ndcg (last (history st')) > float_add env (best_ndcg st) tolerance)
       in (stop \<longleftrightarrow> \<not> improved \<and> PATIENCE cfg \<le> patience_counter st + 1) \<and>
          (improved \<longrightarrow> patience_counter st' = 0) \<and>
          (\<not> improved \<longrightarrow> patience_counter st' = patience_counter st + 1)) \<and>
      (1 \<le> PATIENCE cfg \<and> patience_counter st < PATIENCE cfg \<longrightarrow>
         (stop \<longleftrightarrow> patience_counter st' = PATIENCE cfg) \<and>
         (\<not> stop \<longrightarrow> patience_counter st' < PATIENCE cfg)) \<and>
      epoch_loop env cfg val_data num_items mask_prob model_name seq_len (epoch # rest) st =
        (if stop then Inr st'
         else epoch_loop env cfg val_data num_items mask_prob model_name seq_len rest st')) \<and>
   (train_model env cfg w data val_data num_items mask_prob model_name result_name epochs seq_len
      = Inr (h, final) \<longrightarrow>
      (int (length h) < epochs \<longrightarrow>
         PATIENCE cfg \<le> patience_counter final \<and> 1 \<le> patience_counter final) \<and>
      (1 \<le> PATIENCE cfg \<longrightarrow>
         patience_counter final \<le> PATIENCE cfg \<and>
         (patience_counter final < PATIENCE cfg \<longrightarrow> int (length h) = max 0 epochs) \<and>
         (int (length h) < epochs \<longrightarrow> patience_counter final = PATIENCE cfg)))"
proof (intro conjI impI)
  assume r: "run_epoch env cfg val_data num_items mask_prob model_name seq_len epoch st = Inr (st', stop)"
  from run_epoch_counter [OF r] show "history st' \<noteq> []" by simp
  from run_epoch_counter [OF r]
  show "let improved = (log_val_ndcg (last (history st')) > float_add env (best_ndcg st) tolerance)
       in (stop \<longleftrightarrow> \<not> improved \<and> PATIENCE cfg \<le> patience_counter st + 1) \<and>
          (improved \<longrightarrow> patience_counter st' = 0) \<and>
          (\<not> improved \<longrightarrow> patience_counter st' = patience_counter st + 1)"
    by simp
  from r show "epoch_loop env cfg val_data num_items mask_prob model_name seq_len (epoch # rest) st =
        (if stop then Inr st'
         else epoch_loop env cfg val_data num_items mask_prob model_name seq_len rest st')"
    by simp
  assume a: "1 \<le> PATIENCE cfg \<and> patience_counter st < PATIENCE cfg"
  then have p: "1 \<le> PATIENCE cfg" and c: "patience_counter st < PATIENCE cfg" by simp_all
  from run_epoch_patience [OF p c r]
  show "stop \<longleftrightarrow> patience_counter st' = PATIENCE cfg" by simp
  from run_epoch_patience [OF p c r]
  show "patience_counter st' < PATIENCE cfg" if "\<not> stop" using that by simp
next
  assume t: "train_model env cfg w data val_data num_items mask_prob model_name result_name epochs seq_len
            = Inr (h, final)"
  from t obtain st name where
    l: "epoch_loop env cfg val_data num_items mask_prob model_name seq_len [1..epochs]
       \<lparr>world = setup_training env w (LR cfg), fs = [], train_data = data,
        history = [], best_ndcg = 0, patience_counter = 0,
        current_lr = None, loop_epoch = None\<rparr> = Inr st"
      (is "epoch_loop _ _ _ _ _ _ _ _ ?st0 = _")
    and f: "h = history st"
      "final = st\<lparr>fs := fs st @ [MakeDirs ''results'', JsonDump (path_join ''results'' name) (history st)]\<rparr>"
    by (rule train_model_Inr)
  have len: "epochs \<le> int (length [1..epochs])" by simp
  have z: "0 \<le> patience_counter ?st0" by simp
  from epoch_loop_early [OF z l]
  have early: "length (history st) < length [1..epochs] \<longrightarrow>
      PATIENCE cfg \<le> patience_counter st \<and> 1 \<le> patience_counter st"
    by simp
  {
    assume short: "int (length h) < epochs"
    with len f have "int (length (history st)) < int (length [1..epochs])" by simp
    then have "length (history st) < length [1..epochs]" by (simp only: of_nat_less_iff)
    with early f show "PATIENCE cfg \<le> patience_counter final" and "1 \<le> patience_counter final"
      by simp_all
  }
  assume p: "1 \<le> PATIENCE cfg"
  then have "patience_counter ?st0 < PATIENCE cfg" by simp
  from epoch_loop_patience [OF p this l]
  have le: "patience_counter st \<le> PATIENCE cfg"
    and all: "patience_counter st < PATIENCE cfg \<longrightarrow> length (history st) = length [1..epochs]"
    by simp_all
  from f le show "patience_counter final \<le> PATIENCE cfg" by simp
  have "int (length [1..epochs]) = max 0 epochs" by simp
  with f all show "int (length h) = max 0 epochs" if "patience_counter final < PATIENCE cfg"
    using that by simp
  show "patience_counter final = PATIENCE cfg" if short: "int (length h) < epochs"
  proof (rule ccontr)
    assume "patience_counter final \<noteq> PATIENCE cfg"
    with f le have "patience_counter st < PATIENCE cfg" by simp
    with all f have "int (length h) = int (length [1..epochs])" by simp
    with len short show False by linarith
  qed
qed

lemma stub_patience2_epoch2:
  "run_epoch stub_env (stub_config\<lparr>PATIENCE := 2\<rparr>) [[2, 1]] 4 (3 / 20) None 3 2 stub_state1 =
     Inr (stub_state2, False)"
  by code_simp

lemma stub_patience2_epoch3:
  "run_epoch stub_env (stub_config\<lparr>PATIENCE := 2\<rparr>) [[2, 1]] 4 (3 / 20) None 3 3 stub_state2 =
     Inr (stub_state3, True)"
  by code_simp

lemma stub_patience2_train_model:
  "train_model stub_env (stub_config\<lparr>PATIENCE := 2\<rparr>) 0 [[1, 2], [3], [1, 2, 3, 4]] [[2, 1]] 4
      (3 / 20) None (Some ''config_1.json'') 5 3 =
     Inr ([stub_entry 1, stub_entry 2, stub_entry 3],
          stub_state3\<lparr>fs := [MakeDirs ''results'',
                              JsonDump ''results/config_1.json''
                                [stub_entry 1, stub_entry 2, stub_entry 3]]\<rparr>)"
  by code_simp

lemma stub_patience2:
  "1 \<le> PATIENCE (stub_config\<lparr>PATIENCE := 2\<rparr>)"
  "PATIENCE (stub_config\<lparr>PATIENCE := 2\<rparr>) = 2"
  "patience_counter stub_state1 = 0" "patience_counter stub_state2 = 1"
  "patience_counter stub_state3 = 2"
  by (simp_all add: stub_state1_def stub_state2_def stub_state3_def)

lemma stub_stalled:
  "\<not> log_val_ndcg (last (history stub_state2)) > float_add stub_env (best_ndcg stub_state1) tolerance"
  "\<not> log_val_ndcg (last (history stub_state3)) > float_add stub_env (best_ndcg stub_state2) tolerance"
  by (simp_all add: stub_state1_def stub_state2_def stub_state3_def stub_entry_def stub_env_def
      tolerance_def)

theorem early_stop_decision_witness:
  "run_epoch stub_env (stub_config\<lparr>PATIENCE := 2\<rparr>) [[2, 1]] 4 (3 / 20) None 3 2 stub_state1 =
     Inr (stub_state2, False) \<and>
   patience_counter stub_state2 = patience_counter stub_state1 + 1 \<and>
   patience_counter stub_state2 < PATIENCE (stub_config\<lparr>PATIENCE := 2\<rparr>) \<and>
   epoch_loop stub_env (stub_config\<lparr>PATIENCE := 2\<rparr>) [[2, 1]] 4 (3 / 20) None 3 [2, 3, 4] stub_state1 =
     epoch_loop stub_env (stub_config\<lparr>PATIENCE := 2\<rparr>) [[2, 1]] 4 (3 / 20) None 3 [3, 4] stub_state2 \<and>
   run_epoch stub_env (stub_config\<lparr>PATIENCE := 2\<rparr>) [[2, 1]] 4 (3 / 20) None 3 3 stub_state2 =
     Inr (stub_state3, True) \<and>
   patience_counter stub_state3 = patience_counter stub_state2 + 1 \<and>
   patience_counter stub_state3 = PATIENCE (stub_config\<lparr>PATIENCE := 2\<rparr>) \<and>
   epoch_loop stub_env (stub_config\<lparr>PATIENCE := 2\<rparr>) [[2, 1]] 4 (3 / 20) None 3 [3, 4] stub_state2 =
     Inr stub_state3 \<and>
   train_model stub_env (stub_config\<lparr>PATIENCE := 2\<rparr>) 0 [[1, 2], [3], [1, 2, 3, 4]] [[2, 1]] 4
      (3 / 20) None (Some ''config_1.json'') 5 3 =
     Inr ([stub_entry 1, stub_entry 2, stub_entry 3],
          stub_state3\<lparr>fs := [MakeDirs ''results'',
                              JsonDump ''results/config_1.json''
                                [stub_entry 1, stub_entry 2, stub_entry 3]]\<rparr>) \<and>
   int (length [stub_entry 1, stub_entry 2, stub_entry 3]) < 5 \<and>
   patience_counter
     (stub_state3\<lparr>fs := [MakeDirs ''results'',
                         JsonDump ''results/config_1.json''
                           [stub_entry 1, stub_entry 2, stub_entry 3]]\<rparr>) =
     PATIENCE (stub_config\<lparr>PATIENCE := 2\<rparr>)"
proof -
  note e2 = early_stop_decision [where env = stub_env and cfg = "stub_config\<lparr>PATIENCE := 2\<rparr>"
      and val_data = "[[2, 1]]" and num_items = 4 and mask_prob = "3 / 20" and model_name = None
      and seq_len = 3 and epoch = 2 and st = stub_state1 and st' = stub_state2 and stop = False
      and rest = "[3, 4]", THEN conjunct1, THEN mp, OF stub_patience2_epoch2]
  from e2 stub_stalled(1)
  have a1: "patience_counter stub_state2 = patience_counter stub_state1 + 1"
    by (simp add: Let_def)
  from e2 stub_patience2
  have a2: "patience_counter stub_state2 < PATIENCE (stub_config\<lparr>PATIENCE := 2\<rparr>)"
    by simp
  from e2
  have a3: "epoch_loop stub_env (stub_config\<lparr>PATIENCE := 2\<rparr>) [[2, 1]] 4 (3 / 20) None 3 [2, 3, 4] stub_state1 =
     epoch_loop stub_env (stub_config\<lparr>PATIENCE := 2\<rparr>) [[2, 1]] 4 (3 / 20) None 3 [3, 4] stub_state2"
    by simp
  note e3 = early_stop_decision [where env = stub_env and cfg = "stub_config\<lparr>PATIENCE := 2\<rparr>"
      and val_data = "[[2, 1]]" and num_items = 4 and mask_prob = "3 / 20" and model_name = None
      and seq_len = 3 and epoch = 3 and st = stub_state2 and st' = stub_state3 and stop = True
      and rest = "[4]", THEN conjunct1, THEN mp, OF stub_patience2_epoch3]
  from e3 stub_stalled(2)
  have b1: "patience_counter stub_state3 = patience_counter stub_state2 + 1"
    by (simp add: Let_def)
  from e3 stub_patience2
  have b2: "patience_counter stub_state3 = PATIENCE (stub_config\<lparr>PATIENCE := 2\<rparr>)"
    by simp
  from e3
  have b3: "epoch_loop stub_env (stub_config\<lparr>PATIENCE := 2\<rparr>) [[2, 1]] 4 (3 / 20) None 3 [3, 4] stub_state2 =
     Inr stub_state3"
    by simp
  have short: "int (length [stub_entry 1, stub_entry 2, stub_entry 3]) < 5" by simp
  from early_stop_decision [where env = stub_env and cfg = "stub_config\<lparr>PATIENCE := 2\<rparr>"
      and w = 0 and data = "[[1, 2], [3], [1, 2, 3, 4]]" and val_data = "[[2, 1]]"
      and num_items = 4 and mask_prob = "3 / 20" and model_name = None
      and result_name = "Some ''config_1.json''" and epochs = 5 and seq_len = 3
      and h = "[stub_entry 1, stub_entry 2, stub_entry 3]"
      and final = "stub_state3\<lparr>fs := [MakeDirs ''results'',
                              JsonDump ''results/config_1.json''
                                [stub_entry 1, stub_entry 2, stub_entry 3]]\<rparr>",
      THEN conjunct2, THEN mp, OF stub_patience2_train_model, THEN conjunct2, THEN mp,
      OF stub_patience2(1), THEN conjunct2, THEN conjunct2, THEN mp, OF short]
  have c: "patience_counter
     (stub_state3\<lparr>fs := [MakeDirs ''results'',
                         JsonDump ''results/config_1.json''
                           [stub_entry 1, stub_entry 2, stub_entry 3]]\<rparr>) =
     PATIENCE (stub_config\<lparr>PATIENCE := 2\<rparr>)" .
  show ?thesis
    by (intro conjI)
      (rule stub_patience2_epoch2 a1 a2 a3 stub_patience2_epoch3 b1 b2 b3
         stub_patience2_train_model short c)+
qed

text \<open>
  Claim C4 as stated, for every configured patience, fails at patience \<open>0\<close>: the first epoch
  below improves and leaves the counter at \<open>0\<close>, which is the patience, and the loop goes on;
  the second epoch stalls and breaks with the counter at \<open>1\<close>, past the patience.
\<close>

theorem early_stop_counterexample:
  "PATIENCE (stub_config\<lparr>PATIENCE := 0\<rparr>) = 0 \<and>
   run_epoch stub_env (stub_config\<lparr>PATIENCE := 0\<rparr>) [[2, 1]] 4 (3 / 20) None 3 1 stub_state0 =
     Inr (stub_state1, False) \<and>
   patience_counter stub_state1 = 0 \<and>
   run_epoch stub_env (stub_config\<lparr>PATIENCE := 0\<rparr>) [[2, 1]] 4 (3 / 20) None 3 2 stub_state1 =
     Inr (stub_state2, True) \<and>
   patience_counter stub_state2 = 1"
  by code_simp

subsection \<open>The history\<close>

lemma epoch_loop_history:
  "epoch_loop env cfg vd n p mn L es st = Inr st' \<Longrightarrow>
     \<exists>k\<le>length es.
        map log_epoch (history st') = map log_epoch (history st) @ take k es \<and>
        loop_epoch st' = (if k = 0 then loop_epoch st else Some (es ! (k - 1)))"
proof (induction es arbitrary: st)
  case Nil
  then show ?case by simp
next
  case (Cons e es)
  from Cons.prems obtain st1 stop where
    r: "run_epoch env cfg vd n p mn L e st = Inr (st1, stop)"
    and l: "(if stop then Inr st1 else epoch_loop env cfg vd n p mn L es st1) = Inr st'"
    by (auto split: sum.splits)
  from run_epoch_history [OF r]
  have h: "map log_epoch (history st1) = map log_epoch (history st) @ [e]"
    and v: "loop_epoch st1 = Some e"
    by auto
  show ?case
  proof (cases stop)
    case True
    with l have "st' = st1" by simp
    with h v have "Suc 0 \<le> length (e # es) \<and>
        map log_epoch (history st') = map log_epoch (history st) @ take (Suc 0) (e # es) \<and>
        loop_epoch st' = (if Suc 0 = 0 then loop_epoch st else Some ((e # es) ! (Suc 0 - 1)))"
      by simp
    then show ?thesis by blast
  next
    case False
    with l have "epoch_loop env cfg vd n p mn L es st1 = Inr st'" by simp
    from Cons.IH [OF this] obtain k where k: "k \<le> length es"
      "map log_epoch (history st') = map log_epoch (history st1) @ take k es"
      "loop_epoch st' = (if k = 0 then loop_epoch st1 else Some (es ! (k - 1)))"
      by blast
    with h v have "Suc k \<le> length (e # es) \<and>
        map log_epoch (history st') = map log_epoch (history st) @ take (Suc k) (e # es) \<and>
        loop_epoch st' = (if Suc k = 0 then loop_epoch st else Some ((e # es) ! (Suc k - 1)))"
      by (cases k) simp_all
    then show ?thesis by blast
  qed
qed

lemma take_upto_1: "k \<le> length [1..n] \<Longrightarrow> take k [1..n] = [1..int k]"
proof (cases "k = 0")
  case True
  then show ?thesis by simp
next
  case False
  assume "k \<le> length [1..n]"
  with False have "1 \<le> int k" "int k \<le> n" by simp_all
  then have "[1..n] = [1..int k] @ [int k + 1..n]"
    by (rule upto_split2)
  moreover have "length [1..int k] = k" by simp
  ultimately show ?thesis by simp
qed

text \<open>
  Claim C7.  When \<open>train_model\<close> returns, the history it returns is the one it dumped to the
  results file; its length is the number of epochs executed, which is the last value of the
  loop variable \<open>epoch\<close> (unbound when no epoch ran), and is at most the configured number
  of epochs; its entries carry the epoch indices \<open>1, 2, \<dots>\<close> up to that length, in order and
  without gaps.
\<close>

theorem history_epochs:
  assumes "train_model env cfg w data val_data num_items mask_prob model_name result_name epochs seq_len
             = Inr (h, final)"
  shows "h = history final \<and>
         int (length h) \<le> max 0 epochs \<and>
         map log_epoch h = [1..int (length h)] \<and>
         loop_epoch final = (if h = [] then None else Some (int (length h))) \<and>
         (\<exists>name. result_name = Some name \<and>
            last (fs final) = JsonDump (path_join ''results'' name) h)"
proof -
  from assms obtain st name where
    l: "epoch_loop env cfg val_data num_items mask_prob model_name seq_len [1..epochs]
       \<lparr>world = setup_training env w (LR cfg), fs = [], train_data = data,
        history = [], best_ndcg = 0, patience_counter = 0,
        current_lr = None, loop_epoch = None\<rparr> = Inr st"
    and f: "result_name = Some name" "h = history st"
      "final = st\<lparr>fs := fs st @ [MakeDirs ''results'', JsonDump (path_join ''results'' name) (history st)]\<rparr>"
    by (rule train_model_Inr)
  from epoch_loop_history [OF l] obtain k where k: "k \<le> length [1..epochs]"
    and m: "map log_epoch (history st) = take k [1..epochs]"
    and v: "loop_epoch st = (if k = 0 then None else Some ([1..epochs] ! (k - 1)))"
    by auto
  from k have t: "take k [1..epochs] = [1..int k]" by (rule take_upto_1)
  from m t have "length (map log_epoch (history st)) = length [1..int k]" by simp
  then have len: "length (history st) = k" by simp
  from k have bound: "int k \<le> max 0 epochs" by simp
  have nth: "[1..epochs] ! (k - 1) = int k" if "k \<noteq> 0"
  proof -
    from that k have "1 + int (k - 1) \<le> epochs" by simp
    then have "[1..epochs] ! (k - 1) = 1 + int (k - 1)" by (rule nth_upto)
    with that show ?thesis by simp
  qed
  from len have e: "history st = [] \<longleftrightarrow> k = 0" by auto
  from f have "h = history final" by simp
  moreover from f len bound have "int (length h) \<le> max 0 epochs" by simp
  moreover from f m t len have "map log_epoch h = [1..int (length h)]" by simp
  moreover from f v nth len e have "loop_epoch final = (if h = [] then None else Some (int (length h)))"
    by simp
  moreover from f have "\<exists>name. result_name = Some name \<and>
            last (fs final) = JsonDump (path_join ''results'' name) h"
    by simp
  ultimately show ?thesis by blast
qed

theorem history_epochs_witness:
  "train_model stub_env stub_config 0 [[1, 2], [3], [1, 2, 3, 4]] [[2, 1]] 4 (3 / 20) None
      (Some ''config_1.json'') 3 3 =
     Inr ([stub_entry 1, stub_entry 2],
          stub_state2\<lparr>fs := [MakeDirs ''results'',
                              JsonDump ''results/config_1.json'' [stub_entry 1, stub_entry 2]]\<rparr>) \<and>
   int (length [stub_entry 1, stub_entry 2]) \<le> max 0 3 \<and>
   map log_epoch [stub_entry 1, stub_entry 2] = [1..int (length [stub_entry 1, stub_entry 2])] \<and>
   loop_epoch (stub_state2\<lparr>fs := [MakeDirs ''results'',
                              JsonDump ''results/config_1.json'' [stub_entry 1, stub_entry 2]]\<rparr>) =
     Some (int (length [stub_entry 1, stub_entry 2]))"
proof -
  note t = history_epochs [OF stub_train_model]
  have ne: "[stub_entry 1, stub_entry 2] \<noteq> []" by simp
  from t have a: "int (length [stub_entry 1, stub_entry 2]) \<le> max 0 3" by blast
  from t have b: "map log_epoch [stub_entry 1, stub_entry 2] =
      [1..int (length [stub_entry 1, stub_entry 2])]" by blast
  from t have "loop_epoch (stub_state2\<lparr>fs := [MakeDirs ''results'',
                              JsonDump ''results/config_1.json'' [stub_entry 1, stub_entry 2]]\<rparr>) =
     (if [stub_entry 1, stub_entry 2] = [] then None
      else Some (int (length [stub_entry 1, stub_entry 2])))" by blast
  then have c: "loop_epoch (stub_state2\<lparr>fs := [MakeDirs ''results'',
                              JsonDump ''results/config_1.json'' [stub_entry 1, stub_entry 2]]\<rparr>) =
     Some (int (length [stub_entry 1, stub_entry 2]))"
    by (simp only: ne if_False)
  from stub_train_model a b c show ?thesis by blast
qed

subsection \<open>Loading the data\<close>

text \<open>
  Claim C8.  \<open>load_processed_data\<close> fails when one of the three files is missing (the
  \<^verbatim>\<open>open\<close> raises \<open>FileNotFoundError\<close>).  When all three are there, the item ids are the
  non-zero entries of the sequences of the three splits together: if there are none, in
  particular if every sequence is empty, \<^verbatim>\<open>max\<close> raises \<open>ValueError\<close>; otherwise the
  function returns the three splits and \<open>num_items\<close>, which is one of the item ids and is at
  least every item id.  These two exceptions are what the specification calls a DataError.
\<close>

theorem load_processed_data_spec:
  "(disk (path_join dir ''train_seqs.pkl'') = None \<or>
    disk (path_join dir ''val_seqs.pkl'') = None \<or>
    disk (path_join dir ''test_seqs.pkl'') = None \<longrightarrow>
      load_processed_data disk dir = Inl FileNotFoundError) \<and>
   (disk (path_join dir ''train_seqs.pkl'') = Some train_seqs \<and>
    disk (path_join dir ''val_seqs.pkl'') = Some val_seqs \<and>
    disk (path_join dir ''test_seqs.pkl'') = Some test_seqs \<longrightarrow>
      (let items = {x. x \<noteq> 0 \<and> (\<exists>s \<in> set train_seqs \<union> set val_seqs \<union> set test_seqs. x \<in> set s)}
       in (items = {} \<longrightarrow> load_processed_data disk dir = Inl ValueError) \<and>
          (items \<noteq> {} \<longrightarrow>
             (\<exists>n. load_processed_data disk dir = Inr (train_seqs, val_seqs, test_seqs, n) \<and>
                  n \<in> items \<and> (\<forall>x\<in>items. x \<le> n))) \<and>
          ((\<forall>s \<in> set train_seqs \<union> set val_seqs \<union> set test_seqs. s = []) \<longrightarrow>
             load_processed_data disk dir = Inl ValueError)))"
proof (intro conjI impI)
  assume "disk (path_join dir ''train_seqs.pkl'') = None \<or>
    disk (path_join dir ''val_seqs.pkl'') = None \<or>
    disk (path_join dir ''test_seqs.pkl'') = None"
  then show "load_processed_data disk dir = Inl FileNotFoundError"
    by (auto simp: load_processed_data_def split: option.splits)
next
  assume a: "disk (path_join dir ''train_seqs.pkl'') = Some train_seqs \<and>
    disk (path_join dir ''val_seqs.pkl'') = Some val_seqs \<and>
    disk (path_join dir ''test_seqs.pkl'') = Some test_seqs"
  let ?items = "{x. x \<noteq> 0 \<and> (\<exists>s \<in> set train_seqs \<union> set val_seqs \<union> set test_seqs. x \<in> set s)}"
  let ?all = "set (filter (\<lambda>item. item \<noteq> 0) (concat (train_seqs @ val_seqs @ test_seqs)))"
  have eq: "?all = ?items" by auto
  from a have load: "load_processed_data disk dir =
      (if ?all = {} then Inl ValueError else Inr (train_seqs, val_seqs, test_seqs, Max ?all))"
    by (simp add: load_processed_data_def Let_def)
  have fin: "finite ?all" by simp
  have 1: "load_processed_data disk dir = Inl ValueError" if "?items = {}"
    using that load unfolding eq by simp
  have 2: "\<exists>n. load_processed_data disk dir = Inr (train_seqs, val_seqs, test_seqs, n) \<and>
                  n \<in> ?items \<and> (\<forall>x\<in>?items. x \<le> n)" if ne: "?items \<noteq> {}"
  proof -
    from ne eq have ne': "?all \<noteq> {}" by simp
    from load ne'
    have l: "load_processed_data disk dir = Inr (train_seqs, val_seqs, test_seqs, Max ?all)"
      by simp
    from fin ne' have "Max ?all \<in> ?all" by (rule Max_in)
    then have m: "Max ?all \<in> ?items" by (simp only: eq)
    have "\<forall>x\<in>?all. x \<le> Max ?all"
    proof
      fix x assume "x \<in> ?all"
      with fin show "x \<le> Max ?all" by (rule Max_ge)
    qed
    then have u: "\<forall>x\<in>?items. x \<le> Max ?all" by (simp only: eq)
    from l m u show ?thesis by (intro exI conjI)
  qed
  have 3: "load_processed_data disk dir = Inl ValueError"
    if e: "\<forall>s \<in> set train_seqs \<union> set val_seqs \<union> set test_seqs. s = []"
  proof -
    have "?items = {}"
    proof (rule equals0I)
      fix x assume "x \<in> ?items"
      then obtain s where s: "s \<in> set train_seqs \<union> set val_seqs \<union> set test_seqs" and x: "x \<in> set s"
        by (elim CollectE conjE bexE)
      from e s have "s = []" by (rule bspec)
      with x show False by simp
    qed
    then show ?thesis by (rule 1)
  qed
  show "let items = ?items
       in (items = {} \<longrightarrow> load_processed_data disk dir = Inl ValueError) \<and>
          (items \<noteq> {} \<longrightarrow>
             (\<exists>n. load_processed_data disk dir = Inr (train_seqs, val_seqs, test_seqs, n) \<and>
                  n \<in> items \<and> (\<forall>x\<in>items. x \<le> n))) \<and>
          ((\<forall>s \<in> set train_seqs \<union> set val_seqs \<union> set test_seqs. s = []) \<longrightarrow>
             load_processed_data disk dir = Inl ValueError)"
    unfolding Let_def
  proof (intro conjI impI)
    assume "?items = {}"
    then show "load_processed_data disk dir = Inl ValueError" by (rule 1)
  next
    assume "?items \<noteq> {}"
    then show "\<exists>n. load_processed_data disk dir = Inr (train_seqs, val_seqs, test_seqs, n) \<and>
                  n \<in> ?items \<and> (\<forall>x\<in>?items. x \<le> n)" by (rule 2)
  next
    assume "\<forall>s \<in> set train_seqs \<union> set val_seqs \<union> set test_seqs. s = []"
    then show "load_processed_data disk dir = Inl ValueError" by (rule 3)
  qed
qed

lemma stub_disk_files:
  "stub_disk (path_join ''data'' ''train_seqs.pkl'') = Some [[1, 2], [3], [1, 2, 3, 4]]"
  "stub_disk (path_join ''data'' ''val_seqs.pkl'') = Some [[2, 1]]"
  "stub_disk (path_join ''data'' ''test_seqs.pkl'') = Some [[4, 1]]"
  "stub_disk (path_join ''elsewhere'' ''train_seqs.pkl'') = None"
  by (simp_all add: stub_disk_def path_join_def)

theorem load_processed_data_spec_witness:
  "stub_disk (path_join ''elsewhere'' ''train_seqs.pkl'') = None \<and>
   load_processed_data stub_disk ''elsewhere'' = Inl FileNotFoundError \<and>
   stub_disk (path_join ''data'' ''train_seqs.pkl'') = Some [[1, 2], [3], [1, 2, 3, 4]] \<and>
   stub_disk (path_join ''data'' ''val_seqs.pkl'') = Some [[2, 1]] \<and>
   stub_disk (path_join ''data'' ''test_seqs.pkl'') = Some [[4, 1]] \<and>
   {x. x \<noteq> 0 \<and> (\<exists>s \<in> set [[1, 2], [3], [1, 2, 3, 4]] \<union> set [[2, 1]] \<union> set [[4, 1::int]]. x \<in> set s)} \<noteq> {} \<and>
   (\<exists>n. load_processed_data stub_disk ''data'' = Inr ([[1, 2], [3], [1, 2, 3, 4]], [[2, 1]], [[4, 1]], n) \<and>
        (\<forall>x\<in>{x. x \<noteq> 0 \<and> (\<exists>s \<in> set [[1, 2], [3], [1, 2, 3, 4]] \<union> set [[2, 1]] \<union> set [[4, 1::int]]. x \<in> set s)}. x \<le> n)) \<and>
   load_processed_data (\<lambda>path. Some [[]]) ''data'' = Inl ValueError"
proof -
  have ne: "{x. x \<noteq> 0 \<and> (\<exists>s \<in> set [[1, 2], [3], [1, 2, 3, 4]] \<union> set [[2, 1]] \<union> set [[4, 1::int]]. x \<in> set s)} \<noteq> {}"
  proof -
    have "(4::int) \<in> {x. x \<noteq> 0 \<and> (\<exists>s \<in> set [[1, 2], [3], [1, 2, 3, 4]] \<union> set [[2, 1]] \<union> set [[4, 1::int]]. x \<in> set s)}"
      by simp
    then show ?thesis by blast
  qed
  have a: "load_processed_data stub_disk ''elsewhere'' = Inl FileNotFoundError"
    by (rule load_processed_data_spec [of stub_disk "''elsewhere''", THEN conjunct1, THEN mp])
      (simp add: stub_disk_files(4))
  note t = load_processed_data_spec [of stub_disk "''data''" "[[1, 2], [3], [1, 2, 3, 4]]" "[[2, 1]]" "[[4, 1]]",
      unfolded Let_def, THEN conjunct2, THEN mp, THEN conjunct2, THEN conjunct1, THEN mp]
  have "\<exists>n. load_processed_data stub_disk ''data'' = Inr ([[1, 2], [3], [1, 2, 3, 4]], [[2, 1]], [[4, 1]], n) \<and>
        n \<in> {x. x \<noteq> 0 \<and> (\<exists>s \<in> set [[1, 2], [3], [1, 2, 3, 4]] \<union> set [[2, 1]] \<union> set [[4, 1::int]]. x \<in> set s)} \<and>
        (\<forall>x\<in>{x. x \<noteq> 0 \<and> (\<exists>s \<in> set [[1, 2], [3], [1, 2, 3, 4]] \<union> set [[2, 1]] \<union> set [[4, 1::int]]. x \<in> set s)}. x \<le> n)"
    by (rule t) (use stub_disk_files(1-3) ne in \<open>simp_all only: simp_thms\<close>)
  then obtain n where
    "load_processed_data stub_disk ''data'' = Inr ([[1, 2], [3], [1, 2, 3, 4]], [[2, 1]], [[4, 1]], n)"
    "\<forall>x\<in>{x. x \<noteq> 0 \<and> (\<exists>s \<in> set [[1, 2], [3], [1, 2, 3, 4]] \<union> set [[2, 1]] \<union> set [[4, 1::int]]. x \<in> set s)}. x \<le> n"
    by (elim exE conjE)
  then have b: "\<exists>n. load_processed_data stub_disk ''data'' = Inr ([[1, 2], [3], [1, 2, 3, 4]], [[2, 1]], [[4, 1]], n) \<and>
        (\<forall>x\<in>{x. x \<noteq> 0 \<and> (\<exists>s \<in> set [[1, 2], [3], [1, 2, 3, 4]] \<union> set [[2, 1]] \<union> set [[4, 1::int]]. x \<in> set s)}. x \<le> n)"
    by (intro exI conjI)
  have e: "\<forall>s \<in> set [[]] \<union> set [[]] \<union> set [[]::int list]. s = []" by simp
  have c: "load_processed_data (\<lambda>path. Some [[]]) ''data'' = Inl ValueError"
    by (rule load_processed_data_spec [of "\<lambda>path. Some [[]]" "''data''" "[[]]" "[[]]" "[[]]",
          unfolded Let_def, THEN conjunct2, THEN mp, THEN conjunct2, THEN conjunct2, THEN mp])
      (use e in \<open>simp_all only: simp_thms\<close>)
  show ?thesis
    by (intro conjI) (rule stub_disk_files a ne b c)+
qed

end
